theory Spec2Isabelle
  imports Main
begin

section \<open>Python values\<close>

text \<open>
  The refund manager and the refund commands of poolcli work on parsed JSON: the
  responses of the backend, the developer keys and the invoices are Python dicts,
  lists, strings and numbers, read with \<^verbatim>\<open>d[k]\<close>, \<^verbatim>\<open>d.get(k, default)\<close>,
  \<^verbatim>\<open>len\<close>, \<^verbatim>\<open>.upper()\<close>, \<^verbatim>\<open>.replace\<close> and slices. Nothing in the
  source checks a type, so the model keeps the values dynamically typed and every
  operation that Python would refuse returns the exception Python raises.

  A Python \<^verbatim>\<open>str\<close> is a \<open>string\<close>; the model covers ASCII text (a character outside
  ASCII is passed through unchanged by \<open>upper\<close> and \<open>repr\<close>). A float is kept as the
  text \<^verbatim>\<open>repr\<close> prints for it. A dict is the list of its items; a key is looked up
  with \<open>map_of\<close>.
\<close>

datatype json =
    JNull
  | JBool bool
  | JInt int
  | JFloat string
  | JStr string
  | JList "json list"
  | JObj "(string \<times> json) list"

text \<open>
  The exception classes the source names in an \<^verbatim>\<open>except\<close> clause or raises, and
  those the interpreter raises on an ill-typed value. \<open>RequestException\<close> stands for
  \<^verbatim>\<open>requests.RequestException\<close> and its subclasses. \<open>AuthenticationError\<close>,
  \<open>APIError\<close> and \<open>RefundError\<close> are the classes of \<^verbatim>\<open>poolcli.exceptions\<close>, taken
  as unrelated subclasses of \<^verbatim>\<open>Exception\<close>. \<open>NotRenderableError\<close> is the class of
  \<^verbatim>\<open>rich.errors\<close> and \<open>AssertionError\<close> the built-in one, both raised by the
  libraries the source calls. \<open>OtherException\<close> is any other subclass of
  \<^verbatim>\<open>Exception\<close> a collaborator may raise. The string is \<^verbatim>\<open>str(e)\<close>.
\<close>

datatype exn_class =
    RequestException
  | AuthenticationError
  | APIError
  | RefundError
  | ValueError
  | TypeError
  | AttributeError
  | KeyError
  | IndexError
  | AssertionError
  | NotRenderableError
  | OtherException

datatype exn = Exn exn_class string

fun exn_class_of :: "exn \<Rightarrow> exn_class" where
  "exn_class_of (Exn c m) = c"

fun str_exn :: "exn \<Rightarrow> string" where
  "str_exn (Exn c m) = m"

subsection \<open>Text of a value: \<^verbatim>\<open>str\<close> and \<^verbatim>\<open>repr\<close>\<close>

definition digit_char :: "nat \<Rightarrow> char" where
  "digit_char d = char_of (48 + d)"

fun str_nat :: "nat \<Rightarrow> string" where
  "str_nat n = (if n < 10 then [digit_char n] else str_nat (n div 10) @ [digit_char (n mod 10)])"

definition str_int :: "int \<Rightarrow> string" where
  "str_int i = (if i < 0 then CHR ''-'' # str_nat (nat (- i)) else str_nat (nat i))"

definition hex_char :: "nat \<Rightarrow> char" where
  "hex_char d = (if d < 10 then char_of (48 + d) else char_of (87 + d))"

definition squote :: char where
  "squote = CHR 0x27"

definition dquote :: char where
  "dquote = CHR 0x22"

definition backslash :: char where
  "backslash = CHR 0x5C"

definition repr_char :: "char \<Rightarrow> char \<Rightarrow> string" where
  "repr_char q c =
     (let n = (of_char c :: nat) in
      if c = q \<or> c = backslash then [backslash, c]
      else if n = 9 then [backslash, CHR ''t'']
      else if n = 10 then [backslash, CHR ''n'']
      else if n = 13 then [backslash, CHR ''r'']
      else if n < 32 \<or> n = 127 then [backslash, CHR ''x'', hex_char (n div 16), hex_char (n mod 16)]
      else [c])"

definition repr_str :: "string \<Rightarrow> string" where
  "repr_str s =
     (let q = (if squote \<in> set s \<and> dquote \<notin> set s then dquote else squote)
      in q # concat (map (repr_char q) s) @ [q])"

fun join :: "string \<Rightarrow> string list \<Rightarrow> string" where
  "join sep [] = []"
| "join sep [x] = x"
| "join sep (x # y # ys) = x @ sep @ join sep (y # ys)"

fun py_repr :: "json \<Rightarrow> string" where
  "py_repr JNull = ''None''"
| "py_repr (JBool b) = (if b then ''True'' else ''False'')"
| "py_repr (JInt i) = str_int i"
| "py_repr (JFloat r) = r"
| "py_repr (JStr s) = repr_str s"
| "py_repr (JList xs) = ''['' @ join '', '' (map py_repr xs) @ '']''"
| "py_repr (JObj kvs) =
     ''{'' @ join '', '' (map (\<lambda>kv. repr_str (fst kv) @ '': '' @ py_repr (snd kv)) kvs) @ ''}''"

definition py_str :: "json \<Rightarrow> string" where
  "py_str v = (case v of JStr s \<Rightarrow> s | _ \<Rightarrow> py_repr v)"

definition type_name :: "json \<Rightarrow> string" where
  "type_name v =
     (case v of
        JNull \<Rightarrow> ''NoneType''
      | JBool b \<Rightarrow> ''bool''
      | JInt i \<Rightarrow> ''int''
      | JFloat r \<Rightarrow> ''float''
      | JStr s \<Rightarrow> ''str''
      | JList xs \<Rightarrow> ''list''
      | JObj kvs \<Rightarrow> ''dict'')"

subsection \<open>Operations on values\<close>

text \<open>Truth value of a Python object, as \<^verbatim>\<open>if x\<close> and \<^verbatim>\<open>not x\<close> read it.\<close>

definition py_truthy :: "json \<Rightarrow> bool" where
  "py_truthy v =
     (case v of
        JNull \<Rightarrow> False
      | JBool b \<Rightarrow> b
      | JInt i \<Rightarrow> i \<noteq> 0
      | JFloat r \<Rightarrow> r \<noteq> ''0.0'' \<and> r \<noteq> ''-0.0''
      | JStr s \<Rightarrow> s \<noteq> []
      | JList xs \<Rightarrow> xs \<noteq> []
      | JObj kvs \<Rightarrow> kvs \<noteq> [])"

definition no_attribute :: "json \<Rightarrow> string \<Rightarrow> exn" where
  "no_attribute v name =
     Exn AttributeError
       ([squote] @ type_name v @ [squote] @ '' object has no attribute '' @ [squote] @ name @ [squote])"

text \<open>\<^verbatim>\<open>v.get(k, dflt)\<close>: only a dict has the method.\<close>

definition py_get :: "json \<Rightarrow> string \<Rightarrow> json \<Rightarrow> exn + json" where
  "py_get v k dflt =
     (case v of
        JObj kvs \<Rightarrow> (case map_of kvs k of None \<Rightarrow> Inr dflt | Some x \<Rightarrow> Inr x)
      | _ \<Rightarrow> Inl (no_attribute v ''get''))"

text \<open>\<^verbatim>\<open>v[k]\<close> with a string key \<open>k\<close>.\<close>

definition py_getitem :: "json \<Rightarrow> string \<Rightarrow> exn + json" where
  "py_getitem v k =
     (case v of
        JObj kvs \<Rightarrow> (case map_of kvs k of None \<Rightarrow> Inl (Exn KeyError (repr_str k)) | Some x \<Rightarrow> Inr x)
      | JStr s \<Rightarrow> Inl (Exn TypeError (''string indices must be integers, not '' @ [squote] @ ''str'' @ [squote]))
      | JList xs \<Rightarrow> Inl (Exn TypeError ''list indices must be integers or slices, not str'')
      | _ \<Rightarrow> Inl (Exn TypeError ([squote] @ type_name v @ [squote] @ '' object is not subscriptable'')))"

text \<open>\<^verbatim>\<open>len(v)\<close>.\<close>

definition py_len :: "json \<Rightarrow> exn + nat" where
  "py_len v =
     (case v of
        JStr s \<Rightarrow> Inr (length s)
      | JList xs \<Rightarrow> Inr (length xs)
      | JObj kvs \<Rightarrow> Inr (length kvs)
      | _ \<Rightarrow> Inl (Exn TypeError (''object of type '' @ [squote] @ type_name v @ [squote] @ '' has no len()'')))"

text \<open>The elements \<^verbatim>\<open>for x in v\<close> visits: a dict gives its keys, a string its characters.\<close>

definition py_iter :: "json \<Rightarrow> exn + json list" where
  "py_iter v =
     (case v of
        JStr s \<Rightarrow> Inr (map (\<lambda>c. JStr [c]) s)
      | JList xs \<Rightarrow> Inr xs
      | JObj kvs \<Rightarrow> Inr (map (\<lambda>kv. JStr (fst kv)) kvs)
      | _ \<Rightarrow> Inl (Exn TypeError ([squote] @ type_name v @ [squote] @ '' object is not iterable'')))"

text \<open>
  \<^verbatim>\<open>xs[i]\<close> on a Python list of length \<open>n\<close>: the indices \<open>0\<close> to \<open>n - 1\<close> read from
  the front, \<open>-1\<close> down to \<open>-n\<close> from the back, and every other index raises.
\<close>

definition list_index :: "json list \<Rightarrow> int \<Rightarrow> exn + json" where
  "list_index xs i =
     (if 0 \<le> i \<and> i < int (length xs) then Inr (xs ! nat i)
      else if i < 0 \<and> - i \<le> int (length xs) then Inr (xs ! nat (int (length xs) + i))
      else Inl (Exn IndexError ''list index out of range''))"

text \<open>
  \<^verbatim>\<open>v[:n]\<close> for \<open>n \<ge> 0\<close>: a prefix of a string or of a list. A dict takes the slice
  for a key and raises as well (the \<^verbatim>\<open>TypeError\<close> of CPython up to 3.11 is modelled).
\<close>

definition py_slice_to :: "json \<Rightarrow> nat \<Rightarrow> exn + json" where
  "py_slice_to v n =
     (case v of
        JStr s \<Rightarrow> Inr (JStr (take n s))
      | JList xs \<Rightarrow> Inr (JList (take n xs))
      | JObj kvs \<Rightarrow> Inl (Exn TypeError (''unhashable type: '' @ [squote] @ ''slice'' @ [squote]))
      | _ \<Rightarrow> Inl (Exn TypeError ([squote] @ type_name v @ [squote] @ '' object is not subscriptable'')))"

definition upper_char :: "char \<Rightarrow> char" where
  "upper_char c = (let n = (of_char c :: nat) in if 97 \<le> n \<and> n \<le> 122 then char_of (n - 32) else c)"

text \<open>\<^verbatim>\<open>v.upper()\<close>: only a string has the method.\<close>

definition py_upper :: "json \<Rightarrow> exn + string" where
  "py_upper v = (case v of JStr s \<Rightarrow> Inr (map upper_char s) | _ \<Rightarrow> Inl (no_attribute v ''upper''))"

text \<open>\<^verbatim>\<open>s.replace(c, new)\<close> for a pattern of one character \<open>c\<close>: every occurrence is replaced.\<close>

definition str_replace :: "string \<Rightarrow> char \<Rightarrow> string \<Rightarrow> string" where
  "str_replace s c new = concat (map (\<lambda>x. if x = c then new else [x]) s)"

definition py_replace :: "json \<Rightarrow> char \<Rightarrow> string \<Rightarrow> exn + string" where
  "py_replace v c new = (case v of JStr s \<Rightarrow> Inr (str_replace s c new) | _ \<Rightarrow> Inl (no_attribute v ''replace''))"

text \<open>\<^verbatim>\<open>f"{s:<n}"\<close>: the string padded with spaces on the right to width \<open>n\<close>.\<close>

definition ljust :: "nat \<Rightarrow> string \<Rightarrow> string" where
  "ljust n s = s @ replicate (n - length s) CHR '' ''"

section \<open>Dates and times\<close>

text \<open>
  A \<^verbatim>\<open>datetime\<close> as the age check uses it: \<open>wall\<close> is what its date and time fields
  read, in microseconds since a fixed origin, and \<open>tzinfo\<close> is its offset from UTC in
  microseconds, \<open>None\<close> for a naive value. The clock is supposed far enough from year 1
  that going back thirty days does not leave what a \<^verbatim>\<open>datetime\<close> can hold.
\<close>

record datetime =
  wall :: int
  tzinfo :: "int option"

definition timedelta_days :: "int \<Rightarrow> int" where
  "timedelta_days d = d * 86400000000"

text \<open>\<^verbatim>\<open>dt - delta\<close> keeps the offset.\<close>

definition datetime_sub :: "datetime \<Rightarrow> int \<Rightarrow> datetime" where
  "datetime_sub dt delta = dt\<lparr>wall := wall dt - delta\<rparr>"

text \<open>
  \<^verbatim>\<open>a < b\<close>: two naive values compare what they read, two aware values compare the
  instants they denote, and a naive value does not compare with an aware one.
\<close>

definition datetime_lt :: "datetime \<Rightarrow> datetime \<Rightarrow> exn + bool" where
  "datetime_lt a b =
     (case (tzinfo a, tzinfo b) of
        (None, None) \<Rightarrow> Inr (wall a < wall b)
      | (Some oa, Some ob) \<Rightarrow> Inr (wall a - oa < wall b - ob)
      | _ \<Rightarrow> Inl (Exn TypeError (''can'' @ [squote] @ ''t compare offset-naive and offset-aware datetimes'')))"

section \<open>Collaborators and effects\<close>

text \<open>
  The constants of \<^verbatim>\<open>poolcli.core.constants.apiRoutes.refund\<close>; the module is not
  part of the sources at hand, so the three paths are parameters.
\<close>

record api_routes =
  CREATE_REFUND_INVOICE :: string
  LIST_REFUND_INVOICES :: string
  GET_REFUND_DETAILS :: string

text \<open>
  The arguments of \<^verbatim>\<open>APIClient.create_request\<close>; \<open>http_method\<close> is its argument
  \<^verbatim>\<open>method\<close>. An argument the call does not pass is \<open>None\<close>.
\<close>

record request =
  path :: string
  http_method :: "string option"
  json_data :: "json option"
  params :: "json option"
  token :: json

text \<open>
  A \<^verbatim>\<open>rich.table.Table\<close>: its options, its columns (header and justification) and
  its rows, each the texts of its cells.
\<close>

record table =
  show_header :: bool
  header_style :: string
  columns :: "(string \<times> string) list"
  rows :: "string list list"

text \<open>
  What a run does to the outside, in order: the calls to \<^verbatim>\<open>AuthService\<close>,
  \<^verbatim>\<open>KeyManager\<close>, the prompt and \<^verbatim>\<open>APIClient\<close> with their arguments, the
  construction of a table, and the calls to \<^verbatim>\<open>Console\<close>.
\<close>

datatype event =
    Authenticate string string bool
  | ListDeveloperKeys string json int int string
  | Choice string "(int \<times> json) list" string "(string \<times> string) list"
  | CreateRequest string request
  | NewTable table
  | ConsoleHeader string
  | ConsoleWarning string
  | ConsoleError string
  | ConsoleSuccess string
  | ConsoleInfo string
  | ConsolePrint table
  | ConsolePrintTable string "string list"

text \<open>
  The collaborators, none of which is in the sources at hand: what each returns or
  raises for given arguments, the standard library's \<^verbatim>\<open>datetime.fromisoformat\<close>
  (\<open>None\<close> where it raises \<^verbatim>\<open>ValueError\<close>), and the clock (\<open>utc_now\<close> in microseconds,
  \<open>local_utcoffset\<close> the offset of local time). The first argument of a
  collaborator is the backend URL its object was constructed with. For the prompt,
  \<open>choice\<close> is what the user does with it: the position, counted from 0, of the
  option the user confirms after reading the message and the options.
\<close>

record env =
  apiRoutes_refund :: api_routes
  authenticate_with_wallet :: "string \<Rightarrow> string \<Rightarrow> bool \<Rightarrow> exn + json \<times> json"
  list_developer_keys :: "string \<Rightarrow> json \<Rightarrow> int \<Rightarrow> int \<Rightarrow> string \<Rightarrow> exn + json"
  create_request :: "string \<Rightarrow> request \<Rightarrow> exn + json"
  choice :: "string \<Rightarrow> (int \<times> json) list \<Rightarrow> string \<Rightarrow> nat"
  fromisoformat :: "string \<Rightarrow> datetime option"
  utc_now :: int
  local_utcoffset :: int

text \<open>
  A computation with effects yields the events it caused and either the exception it
  raised or its value.
\<close>

type_synonym 'a io = "event list \<times> (exn + 'a)"

definition io_return :: "'a \<Rightarrow> 'a io" where
  "io_return x = ([], Inr x)"

definition io_raise :: "exn \<Rightarrow> 'a io" where
  "io_raise e = ([], Inl e)"

definition io_emit :: "event \<Rightarrow> unit io" where
  "io_emit ev = ([ev], Inr ())"

definition io_lift :: "exn + 'a \<Rightarrow> 'a io" where
  "io_lift r = ([], r)"

text \<open>The events \<open>t\<close> happened before the computation \<open>m\<close> ran.\<close>

definition io_after :: "event list \<Rightarrow> 'a io \<Rightarrow> 'a io" where
  "io_after t m = (case m of (t', r) \<Rightarrow> (t @ t', r))"

definition io_bind :: "'a io \<Rightarrow> ('a \<Rightarrow> 'b io) \<Rightarrow> 'b io" where
  "io_bind m f =
     (case m of
        (t, Inl e) \<Rightarrow> (t, Inl e)
      | (t, Inr x) \<Rightarrow> io_after t (f x))"

text \<open>\<^verbatim>\<open>try: m except Exception as e: h e\<close>.\<close>

definition io_try :: "'a io \<Rightarrow> (exn \<Rightarrow> 'a io) \<Rightarrow> 'a io" where
  "io_try m h =
     (case m of
        (t, Inl e) \<Rightarrow> io_after t (h e)
      | (t, Inr x) \<Rightarrow> (t, Inr x))"

definition datetime_now :: "env \<Rightarrow> int option \<Rightarrow> datetime" where
  "datetime_now env tz =
     (case tz of
        None \<Rightarrow> \<lparr>wall = utc_now env + local_utcoffset env, tzinfo = None\<rparr>
      | Some off \<Rightarrow> \<lparr>wall = utc_now env + off, tzinfo = Some off\<rparr>)"

definition call_authenticate_with_wallet :: "env \<Rightarrow> string \<Rightarrow> string \<Rightarrow> bool \<Rightarrow> (json \<times> json) io" where
  "call_authenticate_with_wallet env backend_url wallet_name requires_unlock =
     ([Authenticate backend_url wallet_name requires_unlock],
      authenticate_with_wallet env backend_url wallet_name requires_unlock)"

definition call_list_developer_keys :: "env \<Rightarrow> string \<Rightarrow> json \<Rightarrow> int \<Rightarrow> int \<Rightarrow> string \<Rightarrow> json io" where
  "call_list_developer_keys env backend_url tok page limit status =
     ([ListDeveloperKeys backend_url tok page limit status],
      list_developer_keys env backend_url tok page limit status)"

definition call_create_request :: "env \<Rightarrow> string \<Rightarrow> request \<Rightarrow> json io" where
  "call_create_request env backend_url req =
     ([CreateRequest backend_url req], create_request env backend_url req)"

text \<open>
  A label the prompt can show: a string, or \<^verbatim>\<open>None\<close>, which it shows as the empty
  text. It raises \<^verbatim>\<open>ValueError\<close> for a number, a boolean or a dict; a list, which it
  would take for text that is formatted already, is counted with those.
\<close>

definition label_is_text :: "json \<Rightarrow> bool" where
  "label_is_text label = (case label of JStr s \<Rightarrow> True | JNull \<Rightarrow> True | _ \<Rightarrow> False)"

text \<open>
  \<^verbatim>\<open>prompt_toolkit.shortcuts.choice(message, options, default, style)\<close>: each option
  is a pair of a value and a label, and the prompt returns the value of the option the
  user confirms. The cursor cannot leave the options, so a position past the last one
  is the last one. Without options the prompt fails an assertion; the source calls it
  with at least one. The default \<^verbatim>\<open>salad\<close> is the value of no option and leaves the
  cursor on the first one, from where the user moves.
\<close>

definition call_choice :: "env \<Rightarrow> string \<Rightarrow> (int \<times> json) list \<Rightarrow> string \<Rightarrow> (string \<times> string) list \<Rightarrow> int io" where
  "call_choice env message options dflt style =
     ([Choice message options dflt style],
      if options = [] then Inl (Exn AssertionError [])
      else
        (case filter (\<lambda>label. \<not> label_is_text label) (map snd options) of
           [] \<Rightarrow> Inr (fst (options ! min (choice env message options dflt) (length options - 1)))
         | label # _ \<Rightarrow>
             Inl (Exn ValueError
               (''No formatted text. Expecting a unicode object, HTML, ANSI or a FormattedText instance. Got ''
                 @ py_repr label))))"

section \<open>The refund manager\<close>

subsection \<open>\<^verbatim>\<open>RefundManager._is_older_than_one_month\<close>\<close>

text \<open>The body of the \<^verbatim>\<open>try\<close>.\<close>

definition is_older_than_one_month_try :: "env \<Rightarrow> json \<Rightarrow> exn + bool" where
  "is_older_than_one_month_try env updated_at =
     (case py_replace updated_at CHR ''Z'' ''+00:00'' of
        Inl e \<Rightarrow> Inl e
      | Inr s \<Rightarrow>
          (case fromisoformat env s of
             None \<Rightarrow> Inl (Exn ValueError (''Invalid isoformat string: '' @ repr_str s))
           | Some updated_date \<Rightarrow>
               (let one_month_ago =
                      datetime_sub (datetime_now env (tzinfo updated_date)) (timedelta_days 30)
                in datetime_lt updated_date one_month_ago)))"

text \<open>\<^verbatim>\<open>except (ValueError, TypeError): return False\<close>; any other exception goes on.\<close>

definition is_older_than_one_month :: "env \<Rightarrow> json \<Rightarrow> exn + bool" where
  "is_older_than_one_month env updated_at =
     (case is_older_than_one_month_try env updated_at of
        Inl e \<Rightarrow>
          (if exn_class_of e = ValueError \<or> exn_class_of e = TypeError then Inr False else Inl e)
      | Inr b \<Rightarrow> Inr b)"

subsection \<open>\<^verbatim>\<open>RefundManager.create_refund_invoice\<close>\<close>

text \<open>
  The comprehension
  \<^verbatim>\<open>[key for key in expired_keys if self._is_older_than_one_month(key.get("updatedAt", ""))]\<close>
  over the elements of \<^verbatim>\<open>expired_keys\<close>: the first exception ends it.
\<close>

fun eligible_keys :: "env \<Rightarrow> json list \<Rightarrow> exn + json list" where
  "eligible_keys env [] = Inr []"
| "eligible_keys env (key # keys) =
     (case py_get key ''updatedAt'' (JStr []) of
        Inl e \<Rightarrow> Inl e
      | Inr updated_at \<Rightarrow>
          (case is_older_than_one_month env updated_at of
             Inl e \<Rightarrow> Inl e
           | Inr keep \<Rightarrow>
               (case eligible_keys env keys of
                  Inl e \<Rightarrow> Inl e
                | Inr rest \<Rightarrow> Inr (if keep then key # rest else rest))))"

text \<open>\<^verbatim>\<open>[(i, key["apiKey"]) for i, key in enumerate(eligible_keys)]\<close>, counting from \<open>i\<close>.\<close>

fun choice_options :: "int \<Rightarrow> json list \<Rightarrow> exn + (int \<times> json) list" where
  "choice_options i [] = Inr []"
| "choice_options i (key # keys) =
     (case py_getitem key ''apiKey'' of
        Inl e \<Rightarrow> Inl e
      | Inr label \<Rightarrow>
          (case choice_options (i + 1) keys of
             Inl e \<Rightarrow> Inl e
           | Inr rest \<Rightarrow> Inr ((i, label) # rest)))"

text \<open>The check mark U+2705 that opens the success messages, in UTF-8.\<close>

definition check_mark :: string where
  "check_mark = [CHR 0xE2, CHR 0x9C, CHR 0x85]"

definition create_refund_invoice_try :: "env \<Rightarrow> string \<Rightarrow> json \<Rightarrow> json io" where
  "create_refund_invoice_try env backend_url tok =
     io_bind (call_list_developer_keys env backend_url tok 1 100 ''expired'') (\<lambda>keys_result.
     io_bind (io_lift (py_getitem keys_result ''keys'')) (\<lambda>expired_keys.
     io_bind (io_lift (py_len expired_keys)) (\<lambda>n.
     if n = 0 then io_return JNull
     else
       io_bind (io_lift (py_iter expired_keys)) (\<lambda>keys.
       io_bind (io_lift (eligible_keys env keys)) (\<lambda>eligible.
       if length eligible = 0 then
         io_bind (io_emit (ConsoleWarning ''No expired keys older than 1 month found.'')) (\<lambda>_.
         io_return JNull)
       else
         io_bind (io_emit (ConsoleHeader ''Expired Developer Keys - Available for Refund'')) (\<lambda>_.
         io_bind (io_lift (choice_options 0 eligible)) (\<lambda>options.
         io_bind (call_choice env ''Please choose a developer key:'' options ''salad''
                    [(''selected-option'', ''bold green'')]) (\<lambda>result.
         io_bind (io_lift (list_index eligible result)) (\<lambda>selected_key.
         io_bind (io_lift (py_getitem selected_key ''keyId'')) (\<lambda>key_id.
         let payload = JObj [(''keyId'', key_id)] in
         io_bind (call_create_request env backend_url
                    \<lparr>path = CREATE_REFUND_INVOICE (apiRoutes_refund env), http_method = Some ''POST'',
                     json_data = Some payload, params = None, token = tok\<rparr>) (\<lambda>response.
         io_bind (io_emit (ConsoleSuccess (check_mark @ '' Refund Invoice created successfully!''))) (\<lambda>_.
         io_lift (py_getitem response ''data'')))))))))))))"

text \<open>
  The two \<^verbatim>\<open>except\<close> clauses: a \<^verbatim>\<open>requests.RequestException\<close> becomes an
  \<^verbatim>\<open>APIError\<close>, any other exception a \<^verbatim>\<open>RefundError\<close>.
\<close>

definition create_refund_invoice :: "env \<Rightarrow> string \<Rightarrow> json \<Rightarrow> json io" where
  "create_refund_invoice env backend_url tok =
     io_try (create_refund_invoice_try env backend_url tok) (\<lambda>e.
       if exn_class_of e = RequestException then
         io_raise (Exn APIError (''Request failed: '' @ str_exn e))
       else
         io_raise (Exn RefundError
           (''Error creating refund invoice: '' @ str_exn e
             @ ''. Check if you have already created invoice for this key.'')))"

subsection \<open>\<^verbatim>\<open>RefundManager.list_refund_invoices\<close>\<close>

definition list_refund_invoices_try :: "env \<Rightarrow> string \<Rightarrow> json \<Rightarrow> int \<Rightarrow> int \<Rightarrow> json io" where
  "list_refund_invoices_try env backend_url tok page limit =
     (let params = JObj [(''page'', JInt page), (''limit'', JInt limit)] in
      io_bind (call_create_request env backend_url
                 \<lparr>path = LIST_REFUND_INVOICES (apiRoutes_refund env), http_method = None,
                  json_data = None, params = Some params, token = tok\<rparr>) (\<lambda>response.
      io_bind (io_lift (py_getitem response ''data'')) (\<lambda>data1.
      io_bind (io_lift (py_get data1 ''data'' (JList []))) (\<lambda>refunds.
      io_bind (io_lift (py_getitem response ''data'')) (\<lambda>data2.
      io_bind (io_lift (py_get data2 ''pagination'' (JObj []))) (\<lambda>pagination.
      io_return (JObj [(''refunds'', refunds), (''pagination'', pagination)])))))))"

definition list_refund_invoices :: "env \<Rightarrow> string \<Rightarrow> json \<Rightarrow> int \<Rightarrow> int \<Rightarrow> json io" where
  "list_refund_invoices env backend_url tok page limit =
     io_try (list_refund_invoices_try env backend_url tok page limit) (\<lambda>e.
       if exn_class_of e = RequestException then
         io_raise (Exn APIError (''API request failed: '' @ str_exn e))
       else
         io_raise (Exn RefundError (''Error listing refunds: '' @ str_exn e)))"

subsection \<open>\<^verbatim>\<open>RefundManager.get_refund_details\<close>\<close>

definition get_refund_details_try :: "env \<Rightarrow> string \<Rightarrow> json \<Rightarrow> string \<Rightarrow> json io" where
  "get_refund_details_try env backend_url tok refund_id =
     io_bind (call_create_request env backend_url
                \<lparr>path = GET_REFUND_DETAILS (apiRoutes_refund env) @ ''/'' @ refund_id, http_method = None,
                 json_data = None, params = None, token = tok\<rparr>) (\<lambda>response.
     io_lift (py_get response ''data'' (JObj [])))"

text \<open>The single clause \<^verbatim>\<open>except Exception\<close>: every exception becomes a \<^verbatim>\<open>RefundError\<close>.\<close>

definition get_refund_details :: "env \<Rightarrow> string \<Rightarrow> json \<Rightarrow> string \<Rightarrow> json io" where
  "get_refund_details env backend_url tok refund_id =
     io_try (get_refund_details_try env backend_url tok refund_id) (\<lambda>e.
       io_raise (Exn RefundError (''Error fetching refund details: '' @ str_exn e)))"

subsection \<open>\<^verbatim>\<open>RefundManager.display_refund_list\<close>\<close>

text \<open>The four arguments of one \<^verbatim>\<open>table.add_row\<close>, evaluated from left to right.\<close>

definition refund_row :: "json \<Rightarrow> exn + json list" where
  "refund_row refund =
     (case py_get refund ''refundId'' (JStr ''N/A'') of
        Inl e \<Rightarrow> Inl e
      | Inr refund_id \<Rightarrow>
     (case py_get refund ''amountDue'' (JInt 5) of
        Inl e \<Rightarrow> Inl e
      | Inr amount \<Rightarrow>
     (case py_get refund ''status'' (JStr ''unknown'') of
        Inl e \<Rightarrow> Inl e
      | Inr status \<Rightarrow>
     (case py_upper status of
        Inl e \<Rightarrow> Inl e
      | Inr status_upper \<Rightarrow>
     (case py_get refund ''createdAt'' (JStr ''N/A'') of
        Inl e \<Rightarrow> Inl e
      | Inr created \<Rightarrow>
     (case py_slice_to created 19 of
        Inl e \<Rightarrow> Inl e
      | Inr created19 \<Rightarrow>
          Inr [refund_id, JStr (py_str amount), JStr status_upper, created19]))))))"

text \<open>
  \<^verbatim>\<open>rich.table.Table.add_row\<close> takes its cells from left to right: a string is the
  text of its cell, \<^verbatim>\<open>None\<close> an empty cell, and any other value raises
  \<^verbatim>\<open>NotRenderableError\<close>.
\<close>

fun cell_texts :: "json list \<Rightarrow> exn + string list" where
  "cell_texts [] = Inr []"
| "cell_texts (cell # cells) =
     (case (case cell of
              JStr s \<Rightarrow> Inr s
            | JNull \<Rightarrow> Inr []
            | _ \<Rightarrow>
                Inl (Exn NotRenderableError
                  (''unable to render '' @ type_name cell
                    @ ''; a string or other renderable object is required''))) of
        Inl e \<Rightarrow> Inl e
      | Inr text \<Rightarrow>
          (case cell_texts cells of
             Inl e \<Rightarrow> Inl e
           | Inr texts \<Rightarrow> Inr (text # texts)))"

definition add_row :: "table \<Rightarrow> json list \<Rightarrow> exn + table" where
  "add_row tbl cells =
     (case cell_texts cells of
        Inl e \<Rightarrow> Inl e
      | Inr texts \<Rightarrow> Inr (tbl\<lparr>rows := rows tbl @ [texts]\<rparr>))"

text \<open>The loop \<^verbatim>\<open>for refund in refunds: table.add_row(...)\<close>.\<close>

fun add_rows :: "table \<Rightarrow> json list \<Rightarrow> exn + table" where
  "add_rows tbl [] = Inr tbl"
| "add_rows tbl (refund # refunds) =
     (case refund_row refund of
        Inl e \<Rightarrow> Inl e
      | Inr cells \<Rightarrow>
          (case add_row tbl cells of
             Inl e \<Rightarrow> Inl e
           | Inr tbl' \<Rightarrow> add_rows tbl' refunds))"

definition add_column :: "table \<Rightarrow> string \<Rightarrow> string \<Rightarrow> table" where
  "add_column tbl header justify = tbl\<lparr>columns := columns tbl @ [(header, justify)]\<rparr>"

definition new_table :: table where
  "new_table = \<lparr>show_header = True, header_style = ''bold magenta'', columns = [], rows = []\<rparr>"

definition display_refund_list :: "json \<Rightarrow> json \<Rightarrow> unit io" where
  "display_refund_list refunds pagination =
     (if \<not> py_truthy refunds then io_emit (ConsoleWarning ''No refund invoices found.'')
      else
        io_bind (io_emit (NewTable new_table)) (\<lambda>_.
        let tbl = add_column new_table ''Refund ID'' ''center'';
            tbl = add_column tbl ''Amount'' ''center'';
            tbl = add_column tbl ''Status'' ''center'';
            tbl = add_column tbl ''Created'' ''center''
        in
        io_bind (io_lift (py_iter refunds)) (\<lambda>items.
        io_bind (io_lift (add_rows tbl items)) (\<lambda>tbl.
        io_bind (io_emit (ConsolePrint tbl)) (\<lambda>_.
        io_bind (io_lift (py_get pagination ''page'' (JInt 1))) (\<lambda>page.
        io_bind (io_lift (py_get pagination ''totalPages'' (JInt 1))) (\<lambda>total_pages.
        io_emit (ConsoleInfo (''Page '' @ py_str page @ '' of '' @ py_str total_pages)))))))))"

section \<open>The refund commands\<close>

text \<open>
  The two \<^verbatim>\<open>except\<close> clauses every command ends with: the three classes of
  \<^verbatim>\<open>poolcli.exceptions\<close> are printed as they are, any other exception with the
  prefix \<^verbatim>\<open>Unexpected error\<close>.
\<close>

definition command_except :: "exn \<Rightarrow> unit io" where
  "command_except e =
     (if exn_class_of e = AuthenticationError \<or> exn_class_of e = APIError \<or> exn_class_of e = RefundError
      then io_emit (ConsoleError (str_exn e))
      else io_emit (ConsoleError (''Unexpected error: '' @ str_exn e)))"

text \<open>The emoji that open the headers, in UTF-8: U+1F4B8, U+1F4DC, U+1F50D.\<close>

definition money_wings :: string where
  "money_wings = [CHR 0xF0, CHR 0x9F, CHR 0x92, CHR 0xB8]"

definition scroll :: string where
  "scroll = [CHR 0xF0, CHR 0x9F, CHR 0x93, CHR 0x9C]"

definition magnifier :: string where
  "magnifier = [CHR 0xF0, CHR 0x9F, CHR 0x94, CHR 0x8D]"

subsection \<open>\<^verbatim>\<open>refund start\<close>\<close>

definition start_try :: "env \<Rightarrow> string \<Rightarrow> string \<Rightarrow> unit io" where
  "start_try env wallet_name backend_url =
     io_bind (call_authenticate_with_wallet env backend_url wallet_name False) (\<lambda>auth.
     let tok = fst auth in
     if \<not> py_truthy tok then io_emit (ConsoleError ''Authentication required.'')
     else
       io_bind (create_refund_invoice env backend_url tok) (\<lambda>refund_response.
       io_bind (io_lift (py_get refund_response ''invoice'' (JObj []))) (\<lambda>refund_invoice.
       io_bind (io_lift (py_get refund_invoice ''amountDue'' (JInt 5))) (\<lambda>amount.
       if py_truthy refund_response then
         io_bind (io_emit (ConsoleSuccess (check_mark @ '' Refund invoice created successfully!''))) (\<lambda>_.
         io_bind (io_lift (py_get refund_response ''refundId'' (JStr ''N/A''))) (\<lambda>refund_id.
         io_bind (io_lift (py_get refund_response ''status'' (JStr ''unknown''))) (\<lambda>status.
         io_bind (io_lift (py_upper status)) (\<lambda>status_upper.
         io_emit (ConsolePrintTable ''Refund Invoice Details''
           [''ID: '' @ py_str refund_id,
            ''Amount: '' @ py_str amount @ '' TAO'',
            ''Status: '' @ status_upper])))))
       else
         io_emit (ConsoleWarning
           ''No refund invoice returned. See if your developer key is expired or not.'')))))"

definition start :: "env \<Rightarrow> string \<Rightarrow> string \<Rightarrow> unit io" where
  "start env wallet_name backend_url =
     io_bind (io_emit (ConsoleHeader (money_wings @ '' Creating refund invoice for developer key''))) (\<lambda>_.
     io_try (start_try env wallet_name backend_url) command_except)"

subsection \<open>\<^verbatim>\<open>refund list\<close>\<close>

definition list_try :: "env \<Rightarrow> string \<Rightarrow> string \<Rightarrow> int \<Rightarrow> int \<Rightarrow> unit io" where
  "list_try env wallet_name backend_url page limit =
     io_bind (call_authenticate_with_wallet env backend_url wallet_name False) (\<lambda>auth.
     let tok = fst auth in
     if \<not> py_truthy tok then io_emit (ConsoleError ''Authentication required.'')
     else
       io_bind (list_refund_invoices env backend_url tok page limit) (\<lambda>result.
       io_bind (io_lift (py_getitem result ''refunds'')) (\<lambda>refunds.
       io_bind (io_lift (py_getitem result ''pagination'')) (\<lambda>pagination.
       display_refund_list refunds pagination))))"

definition list_cmd :: "env \<Rightarrow> string \<Rightarrow> string \<Rightarrow> int \<Rightarrow> int \<Rightarrow> unit io" where
  "list_cmd env wallet_name backend_url page limit =
     io_bind (io_emit (ConsoleHeader
       (scroll @ '' Listing refunds for wallet '' @ [squote] @ wallet_name @ [squote]))) (\<lambda>_.
     io_try (list_try env wallet_name backend_url page limit) command_except)"

subsection \<open>\<^verbatim>\<open>refund get\<close>\<close>

definition get_try :: "env \<Rightarrow> string \<Rightarrow> string \<Rightarrow> string \<Rightarrow> unit io" where
  "get_try env refund_id wallet_name backend_url =
     io_bind (call_authenticate_with_wallet env backend_url wallet_name False) (\<lambda>auth.
     let tok = fst auth in
     if \<not> py_truthy tok then io_emit (ConsoleError ''Authentication required.'')
     else
       io_bind (get_refund_details env backend_url tok refund_id) (\<lambda>refund_details.
       io_bind (io_lift (py_get refund_details ''invoice'' (JObj []))) (\<lambda>invoice.
       io_bind (io_lift (py_get refund_details ''status'' (JStr ''unknown''))) (\<lambda>status.
       io_bind (io_lift (py_upper status)) (\<lambda>status_upper.
       io_bind (io_lift (py_get invoice ''amountDue'' (JInt 0))) (\<lambda>amount.
       io_bind (io_lift (py_get invoice ''createdAt'' (JStr ''N/A''))) (\<lambda>created.
       io_bind (io_lift (py_get invoice ''updatedAt'' (JStr ''N/A''))) (\<lambda>updated.
       io_emit (ConsolePrintTable (''Refund '' @ refund_id)
         [ljust 20 ''Status:'' @ '' '' @ status_upper,
          ljust 20 ''Amount:'' @ '' '' @ py_str amount @ '' TAO'',
          ljust 20 ''Created:'' @ '' '' @ py_str created,
          ljust 20 ''Updated:'' @ '' '' @ py_str updated])))))))))"

definition get :: "env \<Rightarrow> string \<Rightarrow> string \<Rightarrow> string \<Rightarrow> unit io" where
  "get env refund_id wallet_name backend_url =
     io_bind (io_emit (ConsoleHeader (magnifier @ '' Fetching refund details: '' @ refund_id))) (\<lambda>_.
     io_try (get_try env refund_id wallet_name backend_url) command_except)"

section \<open>The claims' own notions\<close>

text \<open>
  What "strictly earlier than now minus 30 days" says of a parsed timestamp, written
  from the specification: a timestamp with an offset is compared as an instant, its
  reading less its offset against the UTC clock; a naive one is compared with the
  reading of the local clock.
\<close>

definition older_than_30_days_spec :: "env \<Rightarrow> datetime \<Rightarrow> bool" where
  "older_than_30_days_spec env d =
     (case tzinfo d of
        None \<Rightarrow> wall d < utc_now env + local_utcoffset env - timedelta_days 30
      | Some off \<Rightarrow> wall d - off < utc_now env - timedelta_days 30)"

text \<open>
  The eligibility relation of the specification on a key record: its \<^verbatim>\<open>updatedAt\<close>
  is a string that parses, once \<^verbatim>\<open>Z\<close> is read as \<^verbatim>\<open>+00:00\<close>, to a timestamp
  strictly earlier than now minus 30 days.
\<close>

definition refund_eligible_spec :: "env \<Rightarrow> json \<Rightarrow> bool" where
  "refund_eligible_spec env key =
     (case py_get key ''updatedAt'' (JStr []) of
        Inr (JStr s) \<Rightarrow>
          (case fromisoformat env (str_replace s CHR ''Z'' ''+00:00'') of
             None \<Rightarrow> False
           | Some d \<Rightarrow> older_than_30_days_spec env d)
      | _ \<Rightarrow> False)"

text \<open>
  A key record whose \<^verbatim>\<open>updatedAt\<close> is a string or is absent, as the data model of
  the specification has it.
\<close>

definition key_record :: "json \<Rightarrow> bool" where
  "key_record key =
     (case key of
        JObj kvs \<Rightarrow> (case map_of kvs ''updatedAt'' of None \<Rightarrow> True | Some (JStr s) \<Rightarrow> True | Some _ \<Rightarrow> False)
      | _ \<Rightarrow> False)"









section \<open>A concrete setting\<close>

text \<open>
  A parser for the layout \<^verbatim>\<open>YYYY-MM-DD\<close>, one separating character,
  \<^verbatim>\<open>HH:MM:SS\<close>, and then nothing or an offset \<^verbatim>\<open>+HH:MM\<close> or \<^verbatim>\<open>-HH:MM\<close>, which
  every version of \<^verbatim>\<open>datetime.fromisoformat\<close> accepts; it rejects every other string,
  where the library accepts some. The reading counts microseconds from
  0001-01-01T00:00:00. It serves the examples below; the theorems hold for every
  parser.
\<close>

definition digit_value :: "char \<Rightarrow> nat option" where
  "digit_value c = (let n = (of_char c :: nat) in if 48 \<le> n \<and> n \<le> 57 then Some (n - 48) else None)"

fun digits_value :: "nat \<Rightarrow> string \<Rightarrow> nat option" where
  "digits_value acc [] = Some acc"
| "digits_value acc (c # cs) =
     (case digit_value c of None \<Rightarrow> None | Some d \<Rightarrow> digits_value (acc * 10 + d) cs)"

definition field :: "string \<Rightarrow> nat \<Rightarrow> nat \<Rightarrow> nat option" where
  "field s i n = (if i + n \<le> length s then digits_value 0 (take n (drop i s)) else None)"

definition is_leap :: "nat \<Rightarrow> bool" where
  "is_leap y = (if y mod 400 = 0 then True else if y mod 100 = 0 then False else y mod 4 = 0)"

definition days_in_month :: "nat \<Rightarrow> nat \<Rightarrow> nat" where
  "days_in_month y m =
     (if m = 2 then (if is_leap y then 29 else 28)
      else if m = 4 \<or> m = 6 \<or> m = 9 \<or> m = 11 then 30 else 31)"

definition days_before_month :: "nat \<Rightarrow> nat \<Rightarrow> nat" where
  "days_before_month y m =
     [0, 31, 59, 90, 120, 151, 181, 212, 243, 273, 304, 334] ! (m - 1)
       + (if 2 < m \<and> is_leap y then 1 else 0)"

definition days_before_year :: "nat \<Rightarrow> nat" where
  "days_before_year y = 365 * (y - 1) + (y - 1) div 4 + (y - 1) div 400 - (y - 1) div 100"

definition parse_utcoffset :: "string \<Rightarrow> int option option" where
  "parse_utcoffset r =
     (if r = [] then Some None
      else if length r = 6 \<and> (r ! 0 = CHR ''+'' \<or> r ! 0 = CHR ''-'') \<and> r ! 3 = CHR '':'' then
        (case field r 1 2 of
           None \<Rightarrow> None
         | Some h \<Rightarrow>
             (case field r 4 2 of
                None \<Rightarrow> None
              | Some m \<Rightarrow>
                  if h < 24 \<and> m < 60 then
                    Some (Some ((if r ! 0 = CHR ''-'' then - 1 else 1) * (int h * 3600 + int m * 60) * 1000000))
                  else None))
      else None)"

definition fromisoformat_seconds :: "string \<Rightarrow> datetime option" where
  "fromisoformat_seconds s =
     (if 19 \<le> length s \<and> s ! 4 = CHR ''-'' \<and> s ! 7 = CHR ''-'' \<and> s ! 13 = CHR '':'' \<and> s ! 16 = CHR '':'' then
        (case field s 0 4 of None \<Rightarrow> None | Some y \<Rightarrow>
        (case field s 5 2 of None \<Rightarrow> None | Some m \<Rightarrow>
        (case field s 8 2 of None \<Rightarrow> None | Some d \<Rightarrow>
        (case field s 11 2 of None \<Rightarrow> None | Some h \<Rightarrow>
        (case field s 14 2 of None \<Rightarrow> None | Some mi \<Rightarrow>
        (case field s 17 2 of None \<Rightarrow> None | Some sec \<Rightarrow>
        (case parse_utcoffset (drop 19 s) of None \<Rightarrow> None | Some tz \<Rightarrow>
           if 1 \<le> y \<and> 1 \<le> m \<and> m \<le> 12 \<and> 1 \<le> d \<and> d \<le> days_in_month y m
              \<and> h < 24 \<and> mi < 60 \<and> sec < 60
           then
             Some \<lparr>wall = (int (days_before_year y + days_before_month y m + d - 1) * 86400
                           + int h * 3600 + int mi * 60 + int sec) * 1000000,
                   tzinfo = tz\<rparr>
           else None)))))))
      else None)"

text \<open>
  Five expired keys on 2026-11-03 at noon UTC: one updated on 1 September, one on
  20 October, one with a timestamp that does not parse, one with none, and one updated
  on 15 August by a timestamp without offset.
\<close>

definition key_old :: json where
  "key_old = JObj [(''keyId'', JStr ''key-1''), (''apiKey'', JStr ''pk_old''),
                   (''status'', JStr ''expired''), (''updatedAt'', JStr ''2026-09-01T00:00:00Z'')]"

definition key_recent :: json where
  "key_recent = JObj [(''keyId'', JStr ''key-2''), (''apiKey'', JStr ''pk_recent''),
                      (''status'', JStr ''expired''), (''updatedAt'', JStr ''2026-10-20T00:00:00+02:00'')]"

definition key_malformed :: json where
  "key_malformed = JObj [(''keyId'', JStr ''key-3''), (''apiKey'', JStr ''pk_malformed''),
                         (''status'', JStr ''expired''), (''updatedAt'', JStr ''last week'')]"

definition key_undated :: json where
  "key_undated = JObj [(''keyId'', JStr ''key-4''), (''apiKey'', JStr ''pk_undated''),
                       (''status'', JStr ''expired'')]"

definition key_older :: json where
  "key_older = JObj [(''keyId'', JStr ''key-5''), (''apiKey'', JStr ''pk_older''),
                     (''status'', JStr ''expired''), (''updatedAt'', JStr ''2026-08-15T08:30:00'')]"

definition invoice_full :: json where
  "invoice_full = JObj [(''refundId'', JStr ''inv-1''), (''amountDue'', JInt 7),
                        (''status'', JStr ''pending''), (''createdAt'', JStr ''2026-11-01T09:30:00.123456Z'')]"

definition invoice_bare :: json where
  "invoice_bare = JObj []"

definition demo_routes :: api_routes where
  "demo_routes = \<lparr>CREATE_REFUND_INVOICE = ''/refund/create'', LIST_REFUND_INVOICES = ''/refund/list'',
                   GET_REFUND_DETAILS = ''/refund/details''\<rparr>"

text \<open>
  A backend that authenticates the wallet \<^verbatim>\<open>alice\<close> only, lists the five keys,
  creates an invoice, lists two invoices and answers a request for details with an
  envelope that has no \<^verbatim>\<open>data\<close>. The user moves to the second option and confirms.
\<close>

definition demo_env :: env where
  "demo_env =
     \<lparr>apiRoutes_refund = demo_routes,
      authenticate_with_wallet =
        (\<lambda>backend_url wallet_name requires_unlock.
           if wallet_name = ''alice'' then Inr (JStr ''token-alice'', JNull) else Inr (JNull, JNull)),
      list_developer_keys =
        (\<lambda>backend_url tok page limit status.
           Inr (JObj [(''keys'', JList [key_recent, key_old, key_malformed, key_undated, key_older])])),
      create_request =
        (\<lambda>backend_url req.
           if path req = ''/refund/create'' then
             Inr (JObj [(''data'', JObj [(''refundId'', JStr ''inv-9''), (''status'', JStr ''pending'')])])
           else if path req = ''/refund/list'' then
             Inr (JObj [(''data'', JObj [(''data'', JList [invoice_full, invoice_bare]),
                                         (''pagination'', JObj [(''page'', JInt 2)])])])
           else Inr (JObj [(''message'', JStr ''ok'')])),
      choice = (\<lambda>message options dflt. 1),
      fromisoformat = fromisoformat_seconds,
      utc_now = 63929304000000000,
      local_utcoffset = 3600000000\<rparr>"

text \<open>The same backend with no expired key, and with only the key updated on 20 October.\<close>

definition env_no_keys :: env where
  "env_no_keys =
     demo_env\<lparr>list_developer_keys :=
       (\<lambda>backend_url tok page limit status. Inr (JObj [(''keys'', JList [])]))\<rparr>"

definition env_recent_only :: env where
  "env_recent_only =
     demo_env\<lparr>list_developer_keys :=
       (\<lambda>backend_url tok page limit status. Inr (JObj [(''keys'', JList [key_recent])]))\<rparr>"

text \<open>The same backend out of reach: every request ends in a \<^verbatim>\<open>requests.ConnectionError\<close>.\<close>

definition env_offline :: env where
  "env_offline =
     demo_env\<lparr>create_request :=
       (\<lambda>backend_url req. Inl (Exn RequestException ''Connection refused''))\<rparr>"

text \<open>The same backend with no invoice to list.\<close>

definition env_no_invoices :: env where
  "env_no_invoices =
     demo_env\<lparr>create_request :=
       (\<lambda>backend_url req.
          Inr (JObj [(''data'', JObj [(''data'', JList []), (''pagination'', JObj [])])]))\<rparr>"


section \<open>Running a computation\<close>

lemma io_after_pair [simp]: "io_after t (t', r) = (t @ t', r)"
  by (simp add: io_after_def)

lemma io_after_Nil [simp]: "io_after [] m = m"
  by (cases m) simp

lemma io_after_after [simp]: "io_after t (io_after t' m) = io_after (t @ t') m"
  by (cases m) simp

lemma fst_io_after [simp]: "fst (io_after t m) = t @ fst m"
  by (cases m) simp

lemma snd_io_after [simp]: "snd (io_after t m) = snd m"
  by (cases m) simp

lemma io_bind_pair_Inl [simp]: "io_bind (t, Inl e) f = (t, Inl e)"
  by (simp add: io_bind_def)

lemma io_bind_pair_Inr [simp]: "io_bind (t, Inr x) f = io_after t (f x)"
  by (simp add: io_bind_def)

lemma io_bind_lift_Inl [simp]: "io_bind (io_lift (Inl e)) f = ([], Inl e)"
  by (simp add: io_lift_def)

lemma io_bind_lift_Inr [simp]: "io_bind (io_lift (Inr x)) f = f x"
  by (simp add: io_lift_def)

lemma io_bind_return [simp]: "io_bind (io_return x) f = f x"
  by (simp add: io_return_def)

lemma io_bind_emit [simp]: "io_bind (io_emit ev) f = io_after [ev] (f ())"
  by (simp add: io_emit_def)

lemma io_after_bind [simp]: "io_after t (io_bind m f) = io_bind (io_after t m) f"
  by (cases m; cases "snd m") (auto simp: io_bind_def)

lemma io_try_pair_Inl [simp]: "io_try (t, Inl e) h = io_after t (h e)"
  by (simp add: io_try_def)

lemma io_try_pair_Inr [simp]: "io_try (t, Inr x) h = (t, Inr x)"
  by (simp add: io_try_def)

lemma io_after_emit [simp]: "io_after t (io_emit ev) = (t @ [ev], Inr ())"
  by (simp add: io_emit_def)

lemma io_after_return [simp]: "io_after t (io_return x) = (t, Inr x)"
  by (simp add: io_return_def)

lemma io_after_raise [simp]: "io_after t (io_raise e) = (t, Inl e)"
  by (simp add: io_raise_def)

lemma io_after_lift [simp]: "io_after t (io_lift r) = (t, r)"
  by (simp add: io_lift_def)

lemmas call_defs = call_authenticate_with_wallet_def call_list_developer_keys_def
  call_create_request_def call_choice_def

lemmas demo_defs = demo_env_def demo_routes_def env_no_keys_def env_recent_only_def
  env_offline_def env_no_invoices_def

section \<open>No expired key: nothing is created\<close>

text \<open>
  C5. The listing answers the request for the keys of status \<^verbatim>\<open>expired\<close>; when it
  holds no entry, \<^verbatim>\<open>create_refund_invoice\<close> returns \<^verbatim>\<open>None\<close> without raising, and
  the only call it has made is the listing: no request goes to the backend.
\<close>

theorem createInvoice_no_expired_keys:
  assumes "list_developer_keys env backend_url tok 1 100 ''expired'' = Inr keys_result"
    and "py_getitem keys_result ''keys'' = Inr expired_keys"
    and "py_len expired_keys = Inr 0"
  shows "create_refund_invoice env backend_url tok
           = ([ListDeveloperKeys backend_url tok 1 100 ''expired''], Inr JNull)"
  using assms
  by (simp add: create_refund_invoice_def create_refund_invoice_try_def call_defs)

theorem createInvoice_no_expired_keys_witness:
  "list_developer_keys env_no_keys ''https://pool.example'' (JStr ''token-alice'') 1 100 ''expired''
     = Inr (JObj [(''keys'', JList [])])
   \<and> py_getitem (JObj [(''keys'', JList [])]) ''keys'' = Inr (JList [])
   \<and> py_len (JList []) = Inr 0
   \<and> create_refund_invoice env_no_keys ''https://pool.example'' (JStr ''token-alice'')
       = ([ListDeveloperKeys ''https://pool.example'' (JStr ''token-alice'') 1 100 ''expired''], Inr JNull)"
proof -
  have listing: "list_developer_keys env_no_keys ''https://pool.example'' (JStr ''token-alice'') 1 100 ''expired''
      = Inr (JObj [(''keys'', JList [])])"
    by (simp add: demo_defs)
  have keys: "py_getitem (JObj [(''keys'', JList [])]) ''keys'' = Inr (JList [])"
    by (simp add: py_getitem_def)
  have none: "py_len (JList []) = Inr 0"
    by (simp add: py_len_def)
  from createInvoice_no_expired_keys [OF listing keys none] listing keys none
  show ?thesis by simp
qed

section \<open>No token: nothing is called\<close>

text \<open>
  C8. When \<^verbatim>\<open>authenticate_with_wallet\<close> returns a token that is empty (\<^verbatim>\<open>None\<close>,
  the empty string, any value Python reads as false), each of the three commands
  prints \<^verbatim>\<open>Authentication required.\<close> as an error and returns: after the header and
  the authentication there is no call to the refund manager, the key manager or the
  backend.
\<close>

theorem empty_token_short_circuits:
  assumes "authenticate_with_wallet env backend_url wallet_name False = Inr (tok, extra)"
    and "\<not> py_truthy tok"
  shows "start env wallet_name backend_url
           = ([ConsoleHeader (money_wings @ '' Creating refund invoice for developer key''),
               Authenticate backend_url wallet_name False,
               ConsoleError ''Authentication required.''], Inr ())
       \<and> list_cmd env wallet_name backend_url page limit
           = ([ConsoleHeader (scroll @ '' Listing refunds for wallet '' @ [squote] @ wallet_name @ [squote]),
               Authenticate backend_url wallet_name False,
               ConsoleError ''Authentication required.''], Inr ())
       \<and> get env refund_id wallet_name backend_url
           = ([ConsoleHeader (magnifier @ '' Fetching refund details: '' @ refund_id),
               Authenticate backend_url wallet_name False,
               ConsoleError ''Authentication required.''], Inr ())"
  using assms
  by (simp add: start_def start_try_def list_cmd_def list_try_def get_def get_try_def call_defs)

theorem empty_token_short_circuits_witness:
  "authenticate_with_wallet demo_env ''https://pool.example'' ''bob'' False = Inr (JNull, JNull)
   \<and> \<not> py_truthy JNull
   \<and> start demo_env ''bob'' ''https://pool.example''
       = ([ConsoleHeader (money_wings @ '' Creating refund invoice for developer key''),
           Authenticate ''https://pool.example'' ''bob'' False,
           ConsoleError ''Authentication required.''], Inr ())
   \<and> list_cmd demo_env ''bob'' ''https://pool.example'' 1 15
       = ([ConsoleHeader (scroll @ '' Listing refunds for wallet '' @ [squote] @ ''bob'' @ [squote]),
           Authenticate ''https://pool.example'' ''bob'' False,
           ConsoleError ''Authentication required.''], Inr ())
   \<and> get demo_env ''inv-1'' ''bob'' ''https://pool.example''
       = ([ConsoleHeader (magnifier @ '' Fetching refund details: '' @ ''inv-1''),
           Authenticate ''https://pool.example'' ''bob'' False,
           ConsoleError ''Authentication required.''], Inr ())"
proof -
  have auth: "authenticate_with_wallet demo_env ''https://pool.example'' ''bob'' False = Inr (JNull, JNull)"
    by (simp add: demo_defs)
  have empty: "\<not> py_truthy JNull"
    by (simp add: py_truthy_def)
  from empty_token_short_circuits [OF auth empty, of 1 15 "''inv-1''"] auth empty
  show ?thesis by simp
qed

lemma fst_io_raise [simp]: "fst (io_raise e) = []"
  by (simp add: io_raise_def)

lemma fst_io_return [simp]: "fst (io_return x) = []"
  by (simp add: io_return_def)

lemma fst_io_lift [simp]: "fst (io_lift r) = []"
  by (simp add: io_lift_def)

lemma fst_io_emit [simp]: "fst (io_emit ev) = [ev]"
  by (simp add: io_emit_def)

lemma io_bind_pair:
  "io_bind (t, r) f = (case r of Inl e \<Rightarrow> (t, Inl e) | Inr x \<Rightarrow> io_after t (f x))"
  by (simp add: io_bind_def split: sum.splits)

lemma io_bind_lift:
  "io_bind (io_lift r) f = (case r of Inl e \<Rightarrow> ([], Inl e) | Inr x \<Rightarrow> f x)"
  by (simp add: io_lift_def split: sum.splits)

lemma io_try_pair:
  "io_try (t, r) h = (case r of Inl e \<Rightarrow> io_after t (h e) | Inr x \<Rightarrow> (t, Inr x))"
  by (simp add: io_try_def split: sum.splits)

lemma fst_io_bind_prefix: "\<exists>rest. fst (io_bind (t, r) f) = t @ rest"
  by (cases r) simp_all

lemma fst_io_try_prefix: "\<exists>rest. fst (io_try m h) = fst m @ rest"
  by (cases m; cases "snd m") auto

lemma fst_io_try_bind_prefix: "\<exists>rest. fst (io_try (io_bind (t, r) f) h) = t @ rest"
proof -
  obtain rest1 where "fst (io_bind (t, r) f) = t @ rest1"
    using fst_io_bind_prefix by blast
  moreover obtain rest2 where "fst (io_try (io_bind (t, r) f) h) = fst (io_bind (t, r) f) @ rest2"
    using fst_io_try_prefix by blast
  ultimately show ?thesis by simp
qed

section \<open>The age check\<close>

lemma is_older_than_one_month_str:
  "is_older_than_one_month env (JStr s) =
     Inr (case fromisoformat env (str_replace s CHR ''Z'' ''+00:00'') of
            None \<Rightarrow> False
          | Some d \<Rightarrow> older_than_30_days_spec env d)"
  by (auto simp: is_older_than_one_month_def is_older_than_one_month_try_def py_replace_def
      datetime_lt_def datetime_now_def datetime_sub_def older_than_30_days_spec_def Let_def
      split: option.splits)

lemma is_older_than_one_month_not_str:
  assumes "\<forall>s. u \<noteq> JStr s"
  shows "is_older_than_one_month env u = Inl (no_attribute u ''replace'')"
proof (cases u)
  case (JStr s)
  with assms show ?thesis by blast
qed (simp_all add: is_older_than_one_month_def is_older_than_one_month_try_def py_replace_def
      no_attribute_def)

lemma is_older_than_one_month_Inr:
  assumes "py_get key ''updatedAt'' (JStr []) = Inr u"
    and "is_older_than_one_month env u = Inr keep"
  shows "keep = refund_eligible_spec env key"
proof (cases "\<exists>s. u = JStr s")
  case True
  then obtain s where "u = JStr s" ..
  with assms show ?thesis
    by (simp add: is_older_than_one_month_str refund_eligible_spec_def)
next
  case False
  then have "is_older_than_one_month env u = Inl (no_attribute u ''replace'')"
    by (intro is_older_than_one_month_not_str) blast
  with assms(2) show ?thesis by simp
qed

lemma eligible_keys_filter:
  "eligible_keys env keys = Inr eligible \<Longrightarrow> eligible = filter (refund_eligible_spec env) keys"
proof (induction keys arbitrary: eligible)
  case Nil
  then show ?case by simp
next
  case (Cons key keys)
  from Cons.prems obtain u keep rest where
    u: "py_get key ''updatedAt'' (JStr []) = Inr u" and
    keep: "is_older_than_one_month env u = Inr keep" and
    rest: "eligible_keys env keys = Inr rest" and
    eligible: "eligible = (if keep then key # rest else rest)"
    by (auto split: sum.splits)
  from u keep have "keep = refund_eligible_spec env key"
    by (rule is_older_than_one_month_Inr)
  moreover from rest have "rest = filter (refund_eligible_spec env) keys"
    by (rule Cons.IH)
  ultimately show ?case using eligible by simp
qed

lemma key_record_updated_at:
  assumes "key_record key"
  shows "\<exists>s. py_get key ''updatedAt'' (JStr []) = Inr (JStr s)"
proof -
  from assms obtain kvs where key: "key = JObj kvs"
    by (cases key) (simp_all add: key_record_def)
  show ?thesis
  proof (cases "map_of kvs ''updatedAt''")
    case None
    with key show ?thesis by (simp add: py_get_def)
  next
    case (Some v)
    with assms key obtain s where "v = JStr s"
      by (cases v) (simp_all add: key_record_def)
    with Some key show ?thesis by (simp add: py_get_def)
  qed
qed

lemma eligible_keys_total:
  "\<forall>key\<in>set keys. key_record key \<Longrightarrow>
     eligible_keys env keys = Inr (filter (refund_eligible_spec env) keys)"
proof (induction keys)
  case Nil
  then show ?case by simp
next
  case (Cons key keys)
  then have "key_record key" by simp
  then obtain s where s: "py_get key ''updatedAt'' (JStr []) = Inr (JStr s)"
    using key_record_updated_at by blast
  have "is_older_than_one_month env (JStr s) = Inr (refund_eligible_spec env key)"
    using s by (simp add: is_older_than_one_month_str refund_eligible_spec_def)
  with s Cons show ?case by simp
qed

lemma py_iter_len: "py_iter v = Inr xs \<Longrightarrow> py_len v = Inr (length xs)"
  by (cases v) (auto simp: py_iter_def py_len_def)

section \<open>Who can be selected for a refund\<close>

lemma refund_eligible_spec_iff:
  "refund_eligible_spec env key \<longleftrightarrow>
     (\<exists>s d. py_get key ''updatedAt'' (JStr []) = Inr (JStr s)
        \<and> fromisoformat env (str_replace s CHR ''Z'' ''+00:00'') = Some d
        \<and> older_than_30_days_spec env d)"
  by (auto simp: refund_eligible_spec_def split: sum.splits json.splits option.splits)

text \<open>
  What the comprehension over \<^verbatim>\<open>enumerate(eligible_keys)\<close> builds: one option for
  each key, in order, whose value is the position of the key and whose label is its
  \<^verbatim>\<open>apiKey\<close>.
\<close>

lemma choice_options_Inr:
  "choice_options i keys = Inr options \<Longrightarrow>
     length options = length keys
     \<and> (\<forall>j<length keys. fst (options ! j) = i + int j
            \<and> py_getitem (keys ! j) ''apiKey'' = Inr (snd (options ! j)))"
proof (induction keys arbitrary: i options)
  case Nil
  then show ?case by simp
next
  case (Cons key keys)
  from Cons.prems obtain label rest where
    label: "py_getitem key ''apiKey'' = Inr label" and
    rest: "choice_options (i + 1) keys = Inr rest" and
    options: "options = (i, label) # rest"
    by (auto split: sum.splits)
  from Cons.IH [OF rest] have
    len: "length rest = length keys" and
    nth: "\<And>j. j < length keys \<Longrightarrow> fst (rest ! j) = i + 1 + int j
            \<and> py_getitem (keys ! j) ''apiKey'' = Inr (snd (rest ! j))"
    by auto
  show ?case
  proof (intro conjI allI impI)
    show "length options = length (key # keys)"
      using len options by simp
  next
    fix j assume "j < length (key # keys)"
    then show "fst (options ! j) = i + int j"
      using nth options by (cases j) auto
  next
    fix j assume "j < length (key # keys)"
    then show "py_getitem ((key # keys) ! j) ''apiKey'' = Inr (snd (options ! j))"
      using nth options label by (cases j) auto
  qed
qed

lemma choice_options_labels:
  "length labels = length keys \<Longrightarrow>
   \<forall>j<length keys. py_getitem (keys ! j) ''apiKey'' = Inr (labels ! j) \<Longrightarrow>
     choice_options i keys = Inr (zip (map (\<lambda>j. i + int j) [0..<length keys]) labels)"
proof (induction keys arbitrary: i labels)
  case Nil
  then show ?case by simp
next
  case (Cons key keys)
  from Cons.prems(1) obtain label rest where labels: "labels = label # rest"
    by (cases labels) auto
  with Cons.prems have len: "length rest = length keys"
    by simp
  from Cons.prems(2) labels have head: "py_getitem key ''apiKey'' = Inr label"
    by auto
  have tail: "\<forall>j<length keys. py_getitem (keys ! j) ''apiKey'' = Inr (rest ! j)"
  proof (intro allI impI)
    fix j assume "j < length keys"
    then have "Suc j < length (key # keys)" by simp
    with Cons.prems(2) have "py_getitem ((key # keys) ! Suc j) ''apiKey'' = Inr (labels ! Suc j)"
      by blast
    with labels show "py_getitem (keys ! j) ''apiKey'' = Inr (rest ! j)" by simp
  qed
  have "choice_options (i + 1) keys = Inr (zip (map (\<lambda>j. i + 1 + int j) [0..<length keys]) rest)"
    using len tail by (rule Cons.IH)
  moreover have "[0..<Suc (length keys)] = 0 # map Suc [0..<length keys]"
    by (simp add: upt_conv_Cons map_Suc_upt del: upt_Suc)
  ultimately show ?case
    using head labels by (simp add: o_def add.assoc del: upt_Suc)
qed

text \<open>
  Reaching the prompt: its options are built from the eligible keys, and a listing of
  key records with an eligible key reaches it.
\<close>

lemma prompt_options:
  assumes "list_developer_keys env backend_url tok 1 100 ''expired'' = Inr keys_result"
    and "py_getitem keys_result ''keys'' = Inr expired_keys"
    and "py_iter expired_keys = Inr keys"
    and prompt: "Choice message options dflt style \<in> set (fst (create_refund_invoice env backend_url tok))"
  shows "choice_options 0 (filter (refund_eligible_spec env) keys) = Inr options"
proof -
  have len: "py_len expired_keys = Inr (length keys)"
    using assms(3) by (rule py_iter_len)
  show ?thesis
  proof (cases "eligible_keys env keys")
    case (Inl e)
    with assms len show ?thesis
      by (auto simp: create_refund_invoice_def create_refund_invoice_try_def call_defs
          split: if_splits)
  next
    case (Inr eligible)
    then have eligible: "eligible = filter (refund_eligible_spec env) keys"
      by (rule eligible_keys_filter)
    from assms len Inr have "choice_options 0 eligible = Inr options"
      by (auto simp: create_refund_invoice_def create_refund_invoice_try_def call_defs Let_def
          io_bind_pair io_bind_lift io_try_pair split: if_splits sum.splits list.splits)
    with eligible show ?thesis by simp
  qed
qed

lemma prompt_reached:
  assumes "list_developer_keys env backend_url tok 1 100 ''expired'' = Inr keys_result"
    and "py_getitem keys_result ''keys'' = Inr expired_keys"
    and "py_iter expired_keys = Inr keys"
    and records: "\<forall>key\<in>set keys. key_record key"
    and nonempty: "filter (refund_eligible_spec env) keys \<noteq> []"
    and options: "choice_options 0 (filter (refund_eligible_spec env) keys) = Inr options"
  shows "Choice ''Please choose a developer key:'' options ''salad''
           [(''selected-option'', ''bold green'')]
         \<in> set (fst (create_refund_invoice env backend_url tok))"
proof -
  have len: "py_len expired_keys = Inr (length keys)"
    using assms(3) by (rule py_iter_len)
  from records have eligible: "eligible_keys env keys = Inr (filter (refund_eligible_spec env) keys)"
    by (simp add: eligible_keys_total)
  from nonempty have "keys \<noteq> []"
    by auto
  moreover obtain r where "call_choice env ''Please choose a developer key:'' options ''salad''
      [(''selected-option'', ''bold green'')]
    = ([Choice ''Please choose a developer key:'' options ''salad''
         [(''selected-option'', ''bold green'')]], r)"
    by (simp add: call_choice_def)
  ultimately
  have "\<exists>rest. fst (create_refund_invoice env backend_url tok)
      = [ListDeveloperKeys backend_url tok 1 100 ''expired'',
         ConsoleHeader ''Expired Developer Keys - Available for Refund'',
         Choice ''Please choose a developer key:'' options ''salad''
           [(''selected-option'', ''bold green'')]] @ rest"
    using fst_io_try_bind_prefix
      [where t = "[ListDeveloperKeys backend_url tok 1 100 ''expired'',
         ConsoleHeader ''Expired Developer Keys - Available for Refund'',
         Choice ''Please choose a developer key:'' options ''salad''
           [(''selected-option'', ''bold green'')]]"]
      assms len eligible
    by (simp add: create_refund_invoice_def create_refund_invoice_try_def
        call_list_developer_keys_def del: eligible_keys.simps choice_options.simps)
  then show ?thesis
    by auto
qed

text \<open>
  C1. The keys \<^verbatim>\<open>create_refund_invoice\<close> offers at its prompt are exactly the listed
  keys that are eligible, in the order of the listing: a listed key is offered if and
  only if its \<^verbatim>\<open>updatedAt\<close> is a string that parses, \<^verbatim>\<open>Z\<close> read as \<^verbatim>\<open>+00:00\<close>, to a
  timestamp strictly earlier than now minus 30 days, compared as an instant when it
  carries an offset. Whenever the prompt is reached, it has one option for each of
  these keys and no other: the option at position \<open>j\<close> has the value \<open>j\<close> and the
  \<^verbatim>\<open>apiKey\<close> of the \<open>j\<close>-th eligible key for its label. And when the listed keys are
  key records of which at least one is eligible, each with an \<^verbatim>\<open>apiKey\<close>, the prompt
  is reached with these options. A key updated within the last 30 days is therefore
  never offered.
\<close>

theorem createInvoice_offers_the_eligible_keys:
  fixes env :: env and keys :: "json list"
  defines "offered \<equiv>
    filter (\<lambda>key. \<exists>s d. py_get key ''updatedAt'' (JStr []) = Inr (JStr s)
                     \<and> fromisoformat env (str_replace s CHR ''Z'' ''+00:00'') = Some d
                     \<and> older_than_30_days_spec env d) keys"
  assumes "list_developer_keys env backend_url tok 1 100 ''expired'' = Inr keys_result"
    and "py_getitem keys_result ''keys'' = Inr expired_keys"
    and "py_iter expired_keys = Inr keys"
  shows "(Choice message options dflt style \<in> set (fst (create_refund_invoice env backend_url tok))
            \<longrightarrow> length options = length offered
              \<and> (\<forall>j<length offered. fst (options ! j) = int j
                    \<and> py_getitem (offered ! j) ''apiKey'' = Inr (snd (options ! j))))
       \<and> ((\<forall>key\<in>set keys. key_record key)
            \<and> offered \<noteq> []
            \<and> length labels = length offered
            \<and> (\<forall>j<length offered. py_getitem (offered ! j) ''apiKey'' = Inr (labels ! j))
          \<longrightarrow> Choice ''Please choose a developer key:'' (zip (map int [0..<length offered]) labels)
                ''salad'' [(''selected-option'', ''bold green'')]
              \<in> set (fst (create_refund_invoice env backend_url tok)))"
proof (intro conjI impI)
  have offered: "offered = filter (refund_eligible_spec env) keys"
    unfolding offered_def by (rule filter_cong) (auto simp: refund_eligible_spec_iff)
  {
    assume "Choice message options dflt style \<in> set (fst (create_refund_invoice env backend_url tok))"
    with assms(2-4) have "choice_options 0 offered = Inr options"
      unfolding offered by (rule prompt_options)
    from choice_options_Inr [OF this]
    show "length options = length offered"
      and "\<forall>j<length offered. fst (options ! j) = int j
            \<and> py_getitem (offered ! j) ''apiKey'' = Inr (snd (options ! j))"
      by simp_all
  }
  {
    assume reach: "(\<forall>key\<in>set keys. key_record key)
        \<and> offered \<noteq> []
        \<and> length labels = length offered
        \<and> (\<forall>j<length offered. py_getitem (offered ! j) ''apiKey'' = Inr (labels ! j))"
    then have "choice_options 0 offered = Inr (zip (map (\<lambda>j. 0 + int j) [0..<length offered]) labels)"
      by (intro choice_options_labels) auto
    then have "choice_options 0 (filter (refund_eligible_spec env) keys)
        = Inr (zip (map int [0..<length offered]) labels)"
      unfolding offered by simp
    moreover from reach have "\<forall>key\<in>set keys. key_record key"
      and "filter (refund_eligible_spec env) keys \<noteq> []"
      unfolding offered by auto
    ultimately show "Choice ''Please choose a developer key:''
          (zip (map int [0..<length offered]) labels) ''salad'' [(''selected-option'', ''bold green'')]
        \<in> set (fst (create_refund_invoice env backend_url tok))"
      using assms(2-4) by (intro prompt_reached)
  }
qed

lemmas parser_defs = fromisoformat_seconds_def field_def digit_value_def parse_utcoffset_def
  days_in_month_def days_before_month_def days_before_year_def is_leap_def

lemma parse_key_old:
  "fromisoformat_seconds ''2026-09-01T00:00:00+00:00''
     = Some \<lparr>wall = 63923817600000000, tzinfo = Some 0\<rparr>"
  by (simp add: parser_defs)

lemma parse_key_recent:
  "fromisoformat_seconds ''2026-10-20T00:00:00+02:00''
     = Some \<lparr>wall = 63928051200000000, tzinfo = Some 7200000000\<rparr>"
  by (simp add: parser_defs)

lemma parse_key_older:
  "fromisoformat_seconds ''2026-08-15T08:30:00'' = Some \<lparr>wall = 63922379400000000, tzinfo = None\<rparr>"
  by (simp add: parser_defs)

lemma parse_key_malformed: "fromisoformat_seconds ''last week'' = None"
  by (simp add: parser_defs)

lemma parse_empty: "fromisoformat_seconds [] = None"
  by (simp add: parser_defs)

lemma demo_eligible:
  "\<not> refund_eligible_spec demo_env key_recent"
  "refund_eligible_spec demo_env key_old"
  "\<not> refund_eligible_spec demo_env key_malformed"
  "\<not> refund_eligible_spec demo_env key_undated"
  "refund_eligible_spec demo_env key_older"
  by (simp_all add: refund_eligible_spec_def demo_defs key_recent_def key_old_def key_malformed_def
      key_undated_def key_older_def py_get_def str_replace_def parse_key_old parse_key_recent
      parse_key_malformed parse_key_older parse_empty older_than_30_days_spec_def timedelta_days_def)

lemma demo_key_records:
  "key_record key_recent" "key_record key_old" "key_record key_malformed" "key_record key_undated"
  "key_record key_older"
  by (simp_all add: key_record_def key_recent_def key_old_def key_malformed_def key_undated_def
      key_older_def)

lemma demo_offered:
  "filter (\<lambda>key. \<exists>s d. py_get key ''updatedAt'' (JStr []) = Inr (JStr s)
                   \<and> fromisoformat demo_env (str_replace s CHR ''Z'' ''+00:00'') = Some d
                   \<and> older_than_30_days_spec demo_env d)
     [key_recent, key_old, key_malformed, key_undated, key_older] = [key_old, key_older]"
proof -
  have "filter (\<lambda>key. \<exists>s d. py_get key ''updatedAt'' (JStr []) = Inr (JStr s)
                   \<and> fromisoformat demo_env (str_replace s CHR ''Z'' ''+00:00'') = Some d
                   \<and> older_than_30_days_spec demo_env d)
     [key_recent, key_old, key_malformed, key_undated, key_older]
    = filter (refund_eligible_spec demo_env) [key_recent, key_old, key_malformed, key_undated, key_older]"
    by (rule filter_cong) (auto simp: refund_eligible_spec_iff)
  then show ?thesis
    by (simp add: demo_eligible)
qed

lemma demo_eligible_keys:
  "eligible_keys demo_env [key_recent, key_old, key_malformed, key_undated, key_older]
     = Inr [key_old, key_older]"
proof -
  have "\<forall>key\<in>set [key_recent, key_old, key_malformed, key_undated, key_older]. key_record key"
    by (simp add: demo_key_records)
  then have "eligible_keys demo_env [key_recent, key_old, key_malformed, key_undated, key_older]
      = Inr (filter (refund_eligible_spec demo_env)
               [key_recent, key_old, key_malformed, key_undated, key_older])"
    by (rule eligible_keys_total)
  then show ?thesis by (simp add: demo_eligible)
qed

lemma demo_api_keys:
  "py_getitem key_old ''apiKey'' = Inr (JStr ''pk_old'')"
  "py_getitem key_older ''apiKey'' = Inr (JStr ''pk_older'')"
  "py_getitem key_older ''keyId'' = Inr (JStr ''key-5'')"
  by (simp_all add: key_old_def key_older_def py_getitem_def)

lemma demo_choice:
  "call_choice demo_env ''Please choose a developer key:''
     [(0, JStr ''pk_old''), (1, JStr ''pk_older'')] ''salad'' [(''selected-option'', ''bold green'')]
   = ([Choice ''Please choose a developer key:'' [(0, JStr ''pk_old''), (1, JStr ''pk_older'')]
         ''salad'' [(''selected-option'', ''bold green'')]],
      Inr 1)"
  by (simp add: call_choice_def label_is_text_def demo_defs)

lemma demo_create_refund_invoice:
  "create_refund_invoice demo_env ''https://pool.example'' (JStr ''token-alice'')
     = ([ListDeveloperKeys ''https://pool.example'' (JStr ''token-alice'') 1 100 ''expired'',
         ConsoleHeader ''Expired Developer Keys - Available for Refund'',
         Choice ''Please choose a developer key:'' [(0, JStr ''pk_old''), (1, JStr ''pk_older'')]
           ''salad'' [(''selected-option'', ''bold green'')],
         CreateRequest ''https://pool.example''
           \<lparr>path = ''/refund/create'', http_method = Some ''POST'',
            json_data = Some (JObj [(''keyId'', JStr ''key-5'')]), params = None,
            token = JStr ''token-alice''\<rparr>,
         ConsoleSuccess (check_mark @ '' Refund Invoice created successfully!'')],
        Inr (JObj [(''refundId'', JStr ''inv-9''), (''status'', JStr ''pending'')]))"
proof -
  have listing: "list_developer_keys demo_env ''https://pool.example'' (JStr ''token-alice'') 1 100 ''expired''
      = Inr (JObj [(''keys'', JList [key_recent, key_old, key_malformed, key_undated, key_older])])"
    by (simp add: demo_defs)
  have request: "create_request demo_env ''https://pool.example''
      \<lparr>path = ''/refund/create'', http_method = Some ''POST'',
       json_data = Some (JObj [(''keyId'', JStr ''key-5'')]), params = None,
       token = JStr ''token-alice''\<rparr>
      = Inr (JObj [(''data'', JObj [(''refundId'', JStr ''inv-9''), (''status'', JStr ''pending'')])])"
    by (simp add: demo_defs)
  have keys: "py_getitem (JObj [(''keys'', JList [key_recent, key_old, key_malformed, key_undated, key_older])]) ''keys''
      = Inr (JList [key_recent, key_old, key_malformed, key_undated, key_older])"
    by (simp add: py_getitem_def)
  have options: "choice_options 0 [key_old, key_older] = Inr [(0, JStr ''pk_old''), (1, JStr ''pk_older'')]"
    by (simp add: demo_api_keys)
  have invoice: "py_getitem (JObj [(''data'', JObj [(''refundId'', JStr ''inv-9''), (''status'', JStr ''pending'')])]) ''data''
      = Inr (JObj [(''refundId'', JStr ''inv-9''), (''status'', JStr ''pending'')])"
    by (simp add: py_getitem_def)
  have route: "CREATE_REFUND_INVOICE (apiRoutes_refund demo_env) = ''/refund/create''"
    by (simp add: demo_defs)
  show ?thesis
    by (simp add: create_refund_invoice_def create_refund_invoice_try_def
        call_list_developer_keys_def call_create_request_def listing keys
        py_len_def py_iter_def demo_eligible_keys options demo_choice route list_index_def
        demo_api_keys request invoice del: eligible_keys.simps choice_options.simps)
qed

theorem createInvoice_offers_the_eligible_keys_witness:
  "list_developer_keys demo_env ''https://pool.example'' (JStr ''token-alice'') 1 100 ''expired''
     = Inr (JObj [(''keys'', JList [key_recent, key_old, key_malformed, key_undated, key_older])])
   \<and> py_getitem (JObj [(''keys'', JList [key_recent, key_old, key_malformed, key_undated, key_older])]) ''keys''
       = Inr (JList [key_recent, key_old, key_malformed, key_undated, key_older])
   \<and> py_iter (JList [key_recent, key_old, key_malformed, key_undated, key_older])
       = Inr [key_recent, key_old, key_malformed, key_undated, key_older]
   \<and> filter (\<lambda>key. \<exists>s d. py_get key ''updatedAt'' (JStr []) = Inr (JStr s)
                     \<and> fromisoformat demo_env (str_replace s CHR ''Z'' ''+00:00'') = Some d
                     \<and> older_than_30_days_spec demo_env d)
         [key_recent, key_old, key_malformed, key_undated, key_older] = [key_old, key_older]
   \<and> Choice ''Please choose a developer key:'' [(0, JStr ''pk_old''), (1, JStr ''pk_older'')] ''salad''
         [(''selected-option'', ''bold green'')]
       \<in> set (fst (create_refund_invoice demo_env ''https://pool.example'' (JStr ''token-alice'')))
   \<and> length [(0 :: int, JStr ''pk_old''), (1, JStr ''pk_older'')] = length [key_old, key_older]
   \<and> fst ([(0 :: int, JStr ''pk_old''), (1, JStr ''pk_older'')] ! 0) = int 0
   \<and> py_getitem ([key_old, key_older] ! 0) ''apiKey''
       = Inr (snd ([(0 :: int, JStr ''pk_old''), (1, JStr ''pk_older'')] ! 0))
   \<and> fst ([(0 :: int, JStr ''pk_old''), (1, JStr ''pk_older'')] ! 1) = int 1
   \<and> py_getitem ([key_old, key_older] ! 1) ''apiKey''
       = Inr (snd ([(0 :: int, JStr ''pk_old''), (1, JStr ''pk_older'')] ! 1))
   \<and> key_record key_recent \<and> key_record key_old \<and> key_record key_malformed
   \<and> key_record key_undated \<and> key_record key_older
   \<and> [key_old, key_older] \<noteq> []
   \<and> length [JStr ''pk_old'', JStr ''pk_older''] = length [key_old, key_older]
   \<and> py_getitem ([key_old, key_older] ! 0) ''apiKey'' = Inr ([JStr ''pk_old'', JStr ''pk_older''] ! 0)
   \<and> py_getitem ([key_old, key_older] ! 1) ''apiKey'' = Inr ([JStr ''pk_old'', JStr ''pk_older''] ! 1)
   \<and> Choice ''Please choose a developer key:''
         (zip (map int [0..<length [key_old, key_older]]) [JStr ''pk_old'', JStr ''pk_older''])
         ''salad'' [(''selected-option'', ''bold green'')]
       \<in> set (fst (create_refund_invoice demo_env ''https://pool.example'' (JStr ''token-alice'')))"
proof -
  have listing: "list_developer_keys demo_env ''https://pool.example'' (JStr ''token-alice'') 1 100 ''expired''
      = Inr (JObj [(''keys'', JList [key_recent, key_old, key_malformed, key_undated, key_older])])"
    by (simp add: demo_defs)
  have keys: "py_getitem (JObj [(''keys'', JList [key_recent, key_old, key_malformed, key_undated, key_older])]) ''keys''
      = Inr (JList [key_recent, key_old, key_malformed, key_undated, key_older])"
    by (simp add: py_getitem_def)
  have iter: "py_iter (JList [key_recent, key_old, key_malformed, key_undated, key_older])
      = Inr [key_recent, key_old, key_malformed, key_undated, key_older]"
    by (simp add: py_iter_def)
  have prompt: "Choice ''Please choose a developer key:'' [(0, JStr ''pk_old''), (1, JStr ''pk_older'')]
        ''salad'' [(''selected-option'', ''bold green'')]
      \<in> set (fst (create_refund_invoice demo_env ''https://pool.example'' (JStr ''token-alice'')))"
    by (simp add: demo_create_refund_invoice)
  have records: "\<forall>key\<in>set [key_recent, key_old, key_malformed, key_undated, key_older]. key_record key"
    by (simp add: demo_key_records)
  have labels: "\<forall>j<length [key_old, key_older].
      py_getitem ([key_old, key_older] ! j) ''apiKey'' = Inr ([JStr ''pk_old'', JStr ''pk_older''] ! j)"
    by (simp add: demo_api_keys less_Suc_eq)
  note claim = createInvoice_offers_the_eligible_keys [OF listing keys iter,
      of "''Please choose a developer key:''" "[(0, JStr ''pk_old''), (1, JStr ''pk_older'')]" "''salad''"
        "[(''selected-option'', ''bold green'')]" "[JStr ''pk_old'', JStr ''pk_older'']",
      unfolded demo_offered]
  from claim prompt
  have offered: "length [(0 :: int, JStr ''pk_old''), (1, JStr ''pk_older'')] = length [key_old, key_older]
      \<and> (\<forall>j<length [key_old, key_older].
            fst ([(0 :: int, JStr ''pk_old''), (1, JStr ''pk_older'')] ! j) = int j
            \<and> py_getitem ([key_old, key_older] ! j) ''apiKey''
                = Inr (snd ([(0 :: int, JStr ''pk_old''), (1, JStr ''pk_older'')] ! j)))"
    by blast
  from claim records labels
  have reached: "Choice ''Please choose a developer key:''
        (zip (map int [0..<length [key_old, key_older]]) [JStr ''pk_old'', JStr ''pk_older''])
        ''salad'' [(''selected-option'', ''bold green'')]
      \<in> set (fst (create_refund_invoice demo_env ''https://pool.example'' (JStr ''token-alice'')))"
    by simp
  from offered have "fst ([(0 :: int, JStr ''pk_old''), (1, JStr ''pk_older'')] ! 0) = int 0
      \<and> py_getitem ([key_old, key_older] ! 0) ''apiKey''
          = Inr (snd ([(0 :: int, JStr ''pk_old''), (1, JStr ''pk_older'')] ! 0))
      \<and> fst ([(0 :: int, JStr ''pk_old''), (1, JStr ''pk_older'')] ! 1) = int 1
      \<and> py_getitem ([key_old, key_older] ! 1) ''apiKey''
          = Inr (snd ([(0 :: int, JStr ''pk_old''), (1, JStr ''pk_older'')] ! 1))"
    by (simp add: demo_api_keys)
  with listing keys iter prompt reached demo_offered show ?thesis
    by (simp add: demo_key_records demo_api_keys)
qed

text \<open>
  The comparison is strict: with the clock at 2026-11-03T12:00:00 UTC, a key updated
  exactly thirty days earlier is not eligible, and one updated a second before that is.
\<close>

lemma age_check_is_strict:
  "is_older_than_one_month demo_env (JStr ''2026-10-04T12:00:00Z'') = Inr False
   \<and> is_older_than_one_month demo_env (JStr ''2026-10-04T11:59:59Z'') = Inr True"
  by (simp add: is_older_than_one_month_str demo_defs str_replace_def parser_defs
      older_than_30_days_spec_def timedelta_days_def)

section \<open>A timestamp that does not parse\<close>

text \<open>
  C2. On a string the age check never raises: it returns a verdict for every string,
  and the verdict is \<^verbatim>\<open>False\<close> whenever \<^verbatim>\<open>fromisoformat\<close> rejects the string (a
  malformed timestamp). The empty string, which is also what the check receives for a
  key without \<^verbatim>\<open>updatedAt\<close>, is rejected by \<^verbatim>\<open>fromisoformat\<close>, so such a key is not
  eligible. Hence the filter over key records whose \<^verbatim>\<open>updatedAt\<close> is a string or is
  absent always completes, and \<^verbatim>\<open>create_refund_invoice\<close> is not aborted by a
  timestamp.
\<close>

theorem age_check_never_raises_on_strings:
  "(\<exists>b. is_older_than_one_month env (JStr s) = Inr b)
   \<and> (fromisoformat env (str_replace s CHR ''Z'' ''+00:00'') = None
        \<longrightarrow> is_older_than_one_month env (JStr s) = Inr False)
   \<and> (fromisoformat env [] = None \<longrightarrow> is_older_than_one_month env (JStr []) = Inr False)
   \<and> (fromisoformat env [] = None \<and> map_of kvs ''updatedAt'' = None
        \<longrightarrow> eligible_keys env [JObj kvs] = Inr [])
   \<and> ((\<forall>key\<in>set keys. key_record key) \<longrightarrow> (\<exists>eligible. eligible_keys env keys = Inr eligible))"
proof (intro conjI impI)
  show "\<exists>b. is_older_than_one_month env (JStr s) = Inr b"
    by (simp add: is_older_than_one_month_str)
  show "is_older_than_one_month env (JStr s) = Inr False"
    if "fromisoformat env (str_replace s CHR ''Z'' ''+00:00'') = None"
    using that by (simp add: is_older_than_one_month_str)
  show empty: "is_older_than_one_month env (JStr []) = Inr False" if "fromisoformat env [] = None"
    using that by (simp add: is_older_than_one_month_str str_replace_def)
  show "eligible_keys env [JObj kvs] = Inr []"
    if "fromisoformat env [] = None \<and> map_of kvs ''updatedAt'' = None"
    using that by (simp add: py_get_def empty)
  show "\<exists>eligible. eligible_keys env keys = Inr eligible" if "\<forall>key\<in>set keys. key_record key"
    using eligible_keys_total [OF that] by blast
qed

theorem age_check_never_raises_on_strings_witness:
  "is_older_than_one_month demo_env (JStr ''last week'') = Inr False
   \<and> fromisoformat demo_env (str_replace ''last week'' CHR ''Z'' ''+00:00'') = None
   \<and> fromisoformat demo_env [] = None
   \<and> is_older_than_one_month demo_env (JStr []) = Inr False
   \<and> map_of [(''keyId'', JStr ''key-4''), (''apiKey'', JStr ''pk_undated''),
              (''status'', JStr ''expired'')] ''updatedAt'' = None
   \<and> eligible_keys demo_env [key_undated] = Inr []
   \<and> key_record key_recent \<and> key_record key_old \<and> key_record key_malformed \<and> key_record key_undated
   \<and> (\<exists>eligible. eligible_keys demo_env [key_recent, key_old, key_malformed, key_undated] = Inr eligible)"
proof -
  have malformed: "fromisoformat demo_env (str_replace ''last week'' CHR ''Z'' ''+00:00'') = None"
    by (simp add: demo_defs str_replace_def parse_key_malformed)
  have empty: "fromisoformat demo_env [] = None"
    by (simp add: demo_defs parse_empty)
  have undated: "map_of [(''keyId'', JStr ''key-4''), (''apiKey'', JStr ''pk_undated''),
      (''status'', JStr ''expired'')] ''updatedAt'' = None"
    by simp
  have records: "\<forall>key\<in>set [key_recent, key_old, key_malformed, key_undated]. key_record key"
    by (simp add: demo_key_records)
  note claim = age_check_never_raises_on_strings [of demo_env "''last week''"
      "[(''keyId'', JStr ''key-4''), (''apiKey'', JStr ''pk_undated''), (''status'', JStr ''expired'')]"
      "[key_recent, key_old, key_malformed, key_undated]"]
  from claim malformed have "is_older_than_one_month demo_env (JStr ''last week'') = Inr False"
    by blast
  moreover from claim empty have "is_older_than_one_month demo_env (JStr []) = Inr False"
    by blast
  moreover from claim empty undated have "eligible_keys demo_env [key_undated] = Inr []"
    unfolding key_undated_def by blast
  moreover from claim records
  have "\<exists>eligible. eligible_keys demo_env [key_recent, key_old, key_malformed, key_undated] = Inr eligible"
    by blast
  ultimately show ?thesis
    using malformed empty undated by (simp add: demo_key_records)
qed

section \<open>The requests of \<^verbatim>\<open>create_refund_invoice\<close>\<close>

text \<open>
  A prompt whose options are numbered from 0 and labelled with strings returns the
  position the user confirms.
\<close>

lemma call_choice_numbered:
  assumes "length labels = n" and "p < n"
    and "choice env message (zip (map int [0..<n]) (map JStr labels)) dflt = p"
  shows "call_choice env message (zip (map int [0..<n]) (map JStr labels)) dflt style
           = ([Choice message (zip (map int [0..<n]) (map JStr labels)) dflt style], Inr (int p))"
proof -
  let ?options = "zip (map int [0..<n]) (map JStr labels)"
  from assms have nonempty: "?options \<noteq> []"
    by (cases labels) auto
  from assms have "map snd ?options = map JStr labels"
    by (simp add: map_snd_zip)
  then have all_text: "filter (\<lambda>label. \<not> label_is_text label) (map snd ?options) = []"
    by (simp add: filter_empty_conv label_is_text_def)
  from assms have "fst (?options ! min p (length ?options - 1)) = int p"
    by (simp add: min_def)
  with nonempty all_text assms(3) show ?thesis
    by (simp add: call_choice_def)
qed

text \<open>
  C9. Every run of \<^verbatim>\<open>create_refund_invoice\<close> begins by asking the key manager for
  page 1, limit 100, status \<^verbatim>\<open>expired\<close>. When the listed keys are key records, their
  eligible ones have string labels, the user confirms the option at position \<open>p\<close> of
  the prompt (which returns the value of that option) and the backend accepts, the run
  succeeds, the options shown are the labels of the eligible keys numbered from 0, and
  the one request is a \<^verbatim>\<open>POST\<close> to \<^verbatim>\<open>CREATE_REFUND_INVOICE\<close> whose payload is the
  dict with the single entry \<^verbatim>\<open>keyId\<close>, the identifier of the \<open>p\<close>-th eligible key.
\<close>

theorem createInvoice_requests:
  "(\<exists>rest. fst (create_refund_invoice env backend_url tok)
             = ListDeveloperKeys backend_url tok 1 100 ''expired'' # rest)
   \<and> (list_developer_keys env backend_url tok 1 100 ''expired'' = Inr keys_result
        \<and> py_getitem keys_result ''keys'' = Inr expired_keys
        \<and> py_iter expired_keys = Inr keys
        \<and> (\<forall>key\<in>set keys. key_record key)
        \<and> eligible = filter (refund_eligible_spec env) keys
        \<and> length labels = length eligible
        \<and> (\<forall>j<length eligible. py_getitem (eligible ! j) ''apiKey'' = Inr (JStr (labels ! j)))
        \<and> choice env ''Please choose a developer key:''
             (zip (map int [0..<length eligible]) (map JStr labels)) ''salad'' = p
        \<and> p < length eligible
        \<and> py_getitem (eligible ! p) ''keyId'' = Inr key_id
        \<and> create_request env backend_url
              \<lparr>path = CREATE_REFUND_INVOICE (apiRoutes_refund env), http_method = Some ''POST'',
               json_data = Some (JObj [(''keyId'', key_id)]), params = None, token = tok\<rparr>
            = Inr response
        \<and> py_getitem response ''data'' = Inr invoice
      \<longrightarrow> create_refund_invoice env backend_url tok
            = ([ListDeveloperKeys backend_url tok 1 100 ''expired'',
                ConsoleHeader ''Expired Developer Keys - Available for Refund'',
                Choice ''Please choose a developer key:''
                  (zip (map int [0..<length eligible]) (map JStr labels)) ''salad''
                  [(''selected-option'', ''bold green'')],
                CreateRequest backend_url
                  \<lparr>path = CREATE_REFUND_INVOICE (apiRoutes_refund env), http_method = Some ''POST'',
                   json_data = Some (JObj [(''keyId'', key_id)]), params = None, token = tok\<rparr>,
                ConsoleSuccess (check_mark @ '' Refund Invoice created successfully!'')],
               Inr invoice))"
proof (intro conjI impI)
  show "\<exists>rest. fst (create_refund_invoice env backend_url tok)
          = ListDeveloperKeys backend_url tok 1 100 ''expired'' # rest"
    unfolding create_refund_invoice_def create_refund_invoice_try_def call_list_developer_keys_def
    using fst_io_try_bind_prefix [where t = "[ListDeveloperKeys backend_url tok 1 100 ''expired'']"]
    by simp
next
  assume run: "list_developer_keys env backend_url tok 1 100 ''expired'' = Inr keys_result
        \<and> py_getitem keys_result ''keys'' = Inr expired_keys
        \<and> py_iter expired_keys = Inr keys
        \<and> (\<forall>key\<in>set keys. key_record key)
        \<and> eligible = filter (refund_eligible_spec env) keys
        \<and> length labels = length eligible
        \<and> (\<forall>j<length eligible. py_getitem (eligible ! j) ''apiKey'' = Inr (JStr (labels ! j)))
        \<and> choice env ''Please choose a developer key:''
             (zip (map int [0..<length eligible]) (map JStr labels)) ''salad'' = p
        \<and> p < length eligible
        \<and> py_getitem (eligible ! p) ''keyId'' = Inr key_id
        \<and> create_request env backend_url
              \<lparr>path = CREATE_REFUND_INVOICE (apiRoutes_refund env), http_method = Some ''POST'',
               json_data = Some (JObj [(''keyId'', key_id)]), params = None, token = tok\<rparr>
            = Inr response
        \<and> py_getitem response ''data'' = Inr invoice"
  then have filtered: "eligible_keys env keys = Inr eligible"
    by (simp add: eligible_keys_total)
  from run have nonempty: "eligible \<noteq> []"
    by auto
  with run have "keys \<noteq> []"
    by auto
  moreover from run have "py_len expired_keys = Inr (length keys)"
    by (blast intro: py_iter_len)
  moreover from run have "choice_options 0 eligible
      = Inr (zip (map (\<lambda>j. 0 + int j) [0..<length eligible]) (map JStr labels))"
    by (intro choice_options_labels) auto
  then have "choice_options 0 eligible = Inr (zip (map int [0..<length eligible]) (map JStr labels))"
    by simp
  moreover from run have len: "length labels = length eligible"
    and position: "p < length eligible"
    and confirmed: "choice env ''Please choose a developer key:''
      (zip (map int [0..<length eligible]) (map JStr labels)) ''salad'' = p"
    by blast+
  have "call_choice env ''Please choose a developer key:''
        (zip (map int [0..<length eligible]) (map JStr labels)) ''salad''
        [(''selected-option'', ''bold green'')]
      = ([Choice ''Please choose a developer key:''
            (zip (map int [0..<length eligible]) (map JStr labels)) ''salad''
            [(''selected-option'', ''bold green'')]], Inr (int p))"
    using len position confirmed by (rule call_choice_numbered)
  moreover from position have "list_index eligible (int p) = Inr (eligible ! p)"
    by (simp add: list_index_def)
  moreover from run have "list_developer_keys env backend_url tok 1 100 ''expired'' = Inr keys_result"
    and "py_getitem keys_result ''keys'' = Inr expired_keys"
    and "py_iter expired_keys = Inr keys"
    and "py_getitem (eligible ! p) ''keyId'' = Inr key_id"
    and "create_request env backend_url
          \<lparr>path = CREATE_REFUND_INVOICE (apiRoutes_refund env), http_method = Some ''POST'',
           json_data = Some (JObj [(''keyId'', key_id)]), params = None, token = tok\<rparr>
        = Inr response"
    and "py_getitem response ''data'' = Inr invoice"
    by blast+
  ultimately show "create_refund_invoice env backend_url tok
            = ([ListDeveloperKeys backend_url tok 1 100 ''expired'',
                ConsoleHeader ''Expired Developer Keys - Available for Refund'',
                Choice ''Please choose a developer key:''
                  (zip (map int [0..<length eligible]) (map JStr labels)) ''salad''
                  [(''selected-option'', ''bold green'')],
                CreateRequest backend_url
                  \<lparr>path = CREATE_REFUND_INVOICE (apiRoutes_refund env), http_method = Some ''POST'',
                   json_data = Some (JObj [(''keyId'', key_id)]), params = None, token = tok\<rparr>,
                ConsoleSuccess (check_mark @ '' Refund Invoice created successfully!'')],
               Inr invoice)"
    using nonempty filtered
    by (simp add: create_refund_invoice_def create_refund_invoice_try_def
        call_list_developer_keys_def call_create_request_def
        del: eligible_keys.simps choice_options.simps)
qed

theorem createInvoice_requests_witness:
  "list_developer_keys demo_env ''https://pool.example'' (JStr ''token-alice'') 1 100 ''expired''
     = Inr (JObj [(''keys'', JList [key_recent, key_old, key_malformed, key_undated, key_older])])
   \<and> py_getitem (JObj [(''keys'', JList [key_recent, key_old, key_malformed, key_undated, key_older])]) ''keys''
       = Inr (JList [key_recent, key_old, key_malformed, key_undated, key_older])
   \<and> py_iter (JList [key_recent, key_old, key_malformed, key_undated, key_older])
       = Inr [key_recent, key_old, key_malformed, key_undated, key_older]
   \<and> key_record key_recent \<and> key_record key_old \<and> key_record key_malformed
   \<and> key_record key_undated \<and> key_record key_older
   \<and> [key_old, key_older]
       = filter (refund_eligible_spec demo_env) [key_recent, key_old, key_malformed, key_undated, key_older]
   \<and> length [''pk_old'', ''pk_older''] = length [key_old, key_older]
   \<and> py_getitem ([key_old, key_older] ! 0) ''apiKey'' = Inr (JStr ([''pk_old'', ''pk_older''] ! 0))
   \<and> py_getitem ([key_old, key_older] ! 1) ''apiKey'' = Inr (JStr ([''pk_old'', ''pk_older''] ! 1))
   \<and> choice demo_env ''Please choose a developer key:''
         (zip (map int [0..<length [key_old, key_older]]) (map JStr [''pk_old'', ''pk_older''])) ''salad'' = 1
   \<and> (1 :: nat) < length [key_old, key_older]
   \<and> py_getitem ([key_old, key_older] ! 1) ''keyId'' = Inr (JStr ''key-5'')
   \<and> create_request demo_env ''https://pool.example''
         \<lparr>path = CREATE_REFUND_INVOICE (apiRoutes_refund demo_env), http_method = Some ''POST'',
          json_data = Some (JObj [(''keyId'', JStr ''key-5'')]), params = None,
          token = JStr ''token-alice''\<rparr>
       = Inr (JObj [(''data'', JObj [(''refundId'', JStr ''inv-9''), (''status'', JStr ''pending'')])])
   \<and> py_getitem (JObj [(''data'', JObj [(''refundId'', JStr ''inv-9''), (''status'', JStr ''pending'')])]) ''data''
       = Inr (JObj [(''refundId'', JStr ''inv-9''), (''status'', JStr ''pending'')])
   \<and> create_refund_invoice demo_env ''https://pool.example'' (JStr ''token-alice'')
       = ([ListDeveloperKeys ''https://pool.example'' (JStr ''token-alice'') 1 100 ''expired'',
           ConsoleHeader ''Expired Developer Keys - Available for Refund'',
           Choice ''Please choose a developer key:''
             (zip (map int [0..<length [key_old, key_older]]) (map JStr [''pk_old'', ''pk_older'']))
             ''salad'' [(''selected-option'', ''bold green'')],
           CreateRequest ''https://pool.example''
             \<lparr>path = CREATE_REFUND_INVOICE (apiRoutes_refund demo_env), http_method = Some ''POST'',
              json_data = Some (JObj [(''keyId'', JStr ''key-5'')]), params = None,
              token = JStr ''token-alice''\<rparr>,
           ConsoleSuccess (check_mark @ '' Refund Invoice created successfully!'')],
          Inr (JObj [(''refundId'', JStr ''inv-9''), (''status'', JStr ''pending'')]))"
proof -
  have labels: "\<forall>j<length [key_old, key_older].
      py_getitem ([key_old, key_older] ! j) ''apiKey'' = Inr (JStr ([''pk_old'', ''pk_older''] ! j))"
    by (simp add: demo_api_keys less_Suc_eq)
  have records: "\<forall>key\<in>set [key_recent, key_old, key_malformed, key_undated, key_older]. key_record key"
    by (simp add: demo_key_records)
  have run: "list_developer_keys demo_env ''https://pool.example'' (JStr ''token-alice'') 1 100 ''expired''
       = Inr (JObj [(''keys'', JList [key_recent, key_old, key_malformed, key_undated, key_older])])
     \<and> py_getitem (JObj [(''keys'', JList [key_recent, key_old, key_malformed, key_undated, key_older])]) ''keys''
         = Inr (JList [key_recent, key_old, key_malformed, key_undated, key_older])
     \<and> py_iter (JList [key_recent, key_old, key_malformed, key_undated, key_older])
         = Inr [key_recent, key_old, key_malformed, key_undated, key_older]
     \<and> [key_old, key_older]
         = filter (refund_eligible_spec demo_env) [key_recent, key_old, key_malformed, key_undated, key_older]
     \<and> length [''pk_old'', ''pk_older''] = length [key_old, key_older]
     \<and> choice demo_env ''Please choose a developer key:''
           (zip (map int [0..<length [key_old, key_older]]) (map JStr [''pk_old'', ''pk_older''])) ''salad'' = 1
     \<and> (1 :: nat) < length [key_old, key_older]
     \<and> py_getitem ([key_old, key_older] ! 1) ''keyId'' = Inr (JStr ''key-5'')
     \<and> create_request demo_env ''https://pool.example''
           \<lparr>path = CREATE_REFUND_INVOICE (apiRoutes_refund demo_env), http_method = Some ''POST'',
            json_data = Some (JObj [(''keyId'', JStr ''key-5'')]), params = None,
            token = JStr ''token-alice''\<rparr>
         = Inr (JObj [(''data'', JObj [(''refundId'', JStr ''inv-9''), (''status'', JStr ''pending'')])])
     \<and> py_getitem (JObj [(''data'', JObj [(''refundId'', JStr ''inv-9''), (''status'', JStr ''pending'')])]) ''data''
         = Inr (JObj [(''refundId'', JStr ''inv-9''), (''status'', JStr ''pending'')])"
    by (simp add: demo_eligible demo_api_keys)
      (simp add: demo_defs py_getitem_def py_iter_def)
  from createInvoice_requests [of demo_env "''https://pool.example''" "JStr ''token-alice''"
      "JObj [(''keys'', JList [key_recent, key_old, key_malformed, key_undated, key_older])]"
      "JList [key_recent, key_old, key_malformed, key_undated, key_older]"
      "[key_recent, key_old, key_malformed, key_undated, key_older]" "[key_old, key_older]"
      "[''pk_old'', ''pk_older'']" 1 "JStr ''key-5''"
      "JObj [(''data'', JObj [(''refundId'', JStr ''inv-9''), (''status'', JStr ''pending'')])]"
      "JObj [(''refundId'', JStr ''inv-9''), (''status'', JStr ''pending'')]"] run records labels
  have "create_refund_invoice demo_env ''https://pool.example'' (JStr ''token-alice'')
       = ([ListDeveloperKeys ''https://pool.example'' (JStr ''token-alice'') 1 100 ''expired'',
           ConsoleHeader ''Expired Developer Keys - Available for Refund'',
           Choice ''Please choose a developer key:''
             (zip (map int [0..<length [key_old, key_older]]) (map JStr [''pk_old'', ''pk_older'']))
             ''salad'' [(''selected-option'', ''bold green'')],
           CreateRequest ''https://pool.example''
             \<lparr>path = CREATE_REFUND_INVOICE (apiRoutes_refund demo_env), http_method = Some ''POST'',
              json_data = Some (JObj [(''keyId'', JStr ''key-5'')]), params = None,
              token = JStr ''token-alice''\<rparr>,
           ConsoleSuccess (check_mark @ '' Refund Invoice created successfully!'')],
          Inr (JObj [(''refundId'', JStr ''inv-9''), (''status'', JStr ''pending'')]))"
    by blast
  with run show ?thesis
    by (simp add: demo_key_records demo_api_keys demo_eligible)
qed

section \<open>The table of invoices\<close>



text \<open>
  A cell that is neither a string nor \<^verbatim>\<open>None\<close> ends the rendering: with the number 42
  for an id, \<^verbatim>\<open>add_row\<close> raises and no table is printed.
\<close>

lemma add_rows_number_raises:
  "add_rows new_table [JObj [(''refundId'', JInt 42)]]
     = Inl (Exn NotRenderableError
         ''unable to render int; a string or other renderable object is required'')"
  by (simp add: refund_row_def py_get_def py_upper_def py_slice_to_def add_row_def type_name_def)



section \<open>No invoice to list\<close>

text \<open>
  C7. For the empty list \<^verbatim>\<open>display_refund_list\<close> prints the warning
  \<^verbatim>\<open>No refund invoices found.\<close> and returns: no table is constructed and none is
  printed. When the backend answers the listing with an empty list,
  \<^verbatim>\<open>list_refund_invoices\<close> returns it without raising, and the \<^verbatim>\<open>list\<close> command
  ends with that warning and prints no error.
\<close>

theorem renderInvoiceList_empty:
  "display_refund_list (JList []) pagination = ([ConsoleWarning ''No refund invoices found.''], Inr ())
   \<and> (authenticate_with_wallet env backend_url wallet_name False = Inr (tok, extra)
        \<and> py_truthy tok
        \<and> create_request env backend_url
              \<lparr>path = LIST_REFUND_INVOICES (apiRoutes_refund env), http_method = None,
               json_data = None,
               params = Some (JObj [(''page'', JInt page), (''limit'', JInt limit)]), token = tok\<rparr>
            = Inr response
        \<and> py_getitem response ''data'' = Inr data
        \<and> py_get data ''data'' (JList []) = Inr (JList [])
        \<and> py_get data ''pagination'' (JObj []) = Inr pagination
      \<longrightarrow> list_refund_invoices env backend_url tok page limit
            = ([CreateRequest backend_url
                  \<lparr>path = LIST_REFUND_INVOICES (apiRoutes_refund env), http_method = None,
                   json_data = None,
                   params = Some (JObj [(''page'', JInt page), (''limit'', JInt limit)]),
                   token = tok\<rparr>],
               Inr (JObj [(''refunds'', JList []), (''pagination'', pagination)]))
          \<and> list_cmd env wallet_name backend_url page limit
            = ([ConsoleHeader (scroll @ '' Listing refunds for wallet '' @ [squote] @ wallet_name @ [squote]),
                Authenticate backend_url wallet_name False,
                CreateRequest backend_url
                  \<lparr>path = LIST_REFUND_INVOICES (apiRoutes_refund env), http_method = None,
                   json_data = None,
                   params = Some (JObj [(''page'', JInt page), (''limit'', JInt limit)]),
                   token = tok\<rparr>,
                ConsoleWarning ''No refund invoices found.''],
               Inr ()))"
proof (intro conjI impI)
  show empty: "display_refund_list (JList []) pagination
      = ([ConsoleWarning ''No refund invoices found.''], Inr ())"
    by (simp add: display_refund_list_def py_truthy_def io_emit_def)
  assume run: "authenticate_with_wallet env backend_url wallet_name False = Inr (tok, extra)
        \<and> py_truthy tok
        \<and> create_request env backend_url
              \<lparr>path = LIST_REFUND_INVOICES (apiRoutes_refund env), http_method = None,
               json_data = None,
               params = Some (JObj [(''page'', JInt page), (''limit'', JInt limit)]), token = tok\<rparr>
            = Inr response
        \<and> py_getitem response ''data'' = Inr data
        \<and> py_get data ''data'' (JList []) = Inr (JList [])
        \<and> py_get data ''pagination'' (JObj []) = Inr pagination"
  then show listed: "list_refund_invoices env backend_url tok page limit
            = ([CreateRequest backend_url
                  \<lparr>path = LIST_REFUND_INVOICES (apiRoutes_refund env), http_method = None,
                   json_data = None,
                   params = Some (JObj [(''page'', JInt page), (''limit'', JInt limit)]),
                   token = tok\<rparr>],
               Inr (JObj [(''refunds'', JList []), (''pagination'', pagination)]))"
    by (simp add: list_refund_invoices_def list_refund_invoices_try_def call_defs)
  from run show "list_cmd env wallet_name backend_url page limit
            = ([ConsoleHeader (scroll @ '' Listing refunds for wallet '' @ [squote] @ wallet_name @ [squote]),
                Authenticate backend_url wallet_name False,
                CreateRequest backend_url
                  \<lparr>path = LIST_REFUND_INVOICES (apiRoutes_refund env), http_method = None,
                   json_data = None,
                   params = Some (JObj [(''page'', JInt page), (''limit'', JInt limit)]),
                   token = tok\<rparr>,
                ConsoleWarning ''No refund invoices found.''],
               Inr ())"
    by (simp add: list_cmd_def list_try_def call_authenticate_with_wallet_def listed empty
        py_getitem_def)
qed

theorem renderInvoiceList_empty_witness:
  "authenticate_with_wallet env_no_invoices ''https://pool.example'' ''alice'' False
     = Inr (JStr ''token-alice'', JNull)
   \<and> py_truthy (JStr ''token-alice'')
   \<and> create_request env_no_invoices ''https://pool.example''
         \<lparr>path = LIST_REFUND_INVOICES (apiRoutes_refund env_no_invoices), http_method = None,
          json_data = None, params = Some (JObj [(''page'', JInt 1), (''limit'', JInt 15)]),
          token = JStr ''token-alice''\<rparr>
       = Inr (JObj [(''data'', JObj [(''data'', JList []), (''pagination'', JObj [])])])
   \<and> py_getitem (JObj [(''data'', JObj [(''data'', JList []), (''pagination'', JObj [])])]) ''data''
       = Inr (JObj [(''data'', JList []), (''pagination'', JObj [])])
   \<and> py_get (JObj [(''data'', JList []), (''pagination'', JObj [])]) ''data'' (JList []) = Inr (JList [])
   \<and> py_get (JObj [(''data'', JList []), (''pagination'', JObj [])]) ''pagination'' (JObj [])
       = Inr (JObj [])
   \<and> display_refund_list (JList []) (JObj [])
       = ([ConsoleWarning ''No refund invoices found.''], Inr ())
   \<and> list_refund_invoices env_no_invoices ''https://pool.example'' (JStr ''token-alice'') 1 15
       = ([CreateRequest ''https://pool.example''
             \<lparr>path = LIST_REFUND_INVOICES (apiRoutes_refund env_no_invoices), http_method = None,
              json_data = None, params = Some (JObj [(''page'', JInt 1), (''limit'', JInt 15)]),
              token = JStr ''token-alice''\<rparr>],
          Inr (JObj [(''refunds'', JList []), (''pagination'', JObj [])]))
   \<and> list_cmd env_no_invoices ''alice'' ''https://pool.example'' 1 15
       = ([ConsoleHeader (scroll @ '' Listing refunds for wallet '' @ [squote] @ ''alice'' @ [squote]),
           Authenticate ''https://pool.example'' ''alice'' False,
           CreateRequest ''https://pool.example''
             \<lparr>path = LIST_REFUND_INVOICES (apiRoutes_refund env_no_invoices), http_method = None,
              json_data = None, params = Some (JObj [(''page'', JInt 1), (''limit'', JInt 15)]),
              token = JStr ''token-alice''\<rparr>,
           ConsoleWarning ''No refund invoices found.''],
          Inr ())"
proof -
  have run: "authenticate_with_wallet env_no_invoices ''https://pool.example'' ''alice'' False
       = Inr (JStr ''token-alice'', JNull)
     \<and> py_truthy (JStr ''token-alice'')
     \<and> create_request env_no_invoices ''https://pool.example''
           \<lparr>path = LIST_REFUND_INVOICES (apiRoutes_refund env_no_invoices), http_method = None,
            json_data = None, params = Some (JObj [(''page'', JInt 1), (''limit'', JInt 15)]),
            token = JStr ''token-alice''\<rparr>
         = Inr (JObj [(''data'', JObj [(''data'', JList []), (''pagination'', JObj [])])])
     \<and> py_getitem (JObj [(''data'', JObj [(''data'', JList []), (''pagination'', JObj [])])]) ''data''
         = Inr (JObj [(''data'', JList []), (''pagination'', JObj [])])
     \<and> py_get (JObj [(''data'', JList []), (''pagination'', JObj [])]) ''data'' (JList []) = Inr (JList [])
     \<and> py_get (JObj [(''data'', JList []), (''pagination'', JObj [])]) ''pagination'' (JObj [])
         = Inr (JObj [])"
    by (simp add: demo_defs py_truthy_def py_getitem_def py_get_def)
  note claim = renderInvoiceList_empty [of "JObj []" env_no_invoices "''https://pool.example''"
      "''alice''" "JStr ''token-alice''" JNull 1 15
      "JObj [(''data'', JObj [(''data'', JList []), (''pagination'', JObj [])])]"
      "JObj [(''data'', JList []), (''pagination'', JObj [])]"]
  from claim have "display_refund_list (JList []) (JObj [])
      = ([ConsoleWarning ''No refund invoices found.''], Inr ())"
    by blast
  moreover from claim run
  have "list_refund_invoices env_no_invoices ''https://pool.example'' (JStr ''token-alice'') 1 15
       = ([CreateRequest ''https://pool.example''
             \<lparr>path = LIST_REFUND_INVOICES (apiRoutes_refund env_no_invoices), http_method = None,
              json_data = None, params = Some (JObj [(''page'', JInt 1), (''limit'', JInt 15)]),
              token = JStr ''token-alice''\<rparr>],
          Inr (JObj [(''refunds'', JList []), (''pagination'', JObj [])]))"
    by blast
  moreover from claim run
  have "list_cmd env_no_invoices ''alice'' ''https://pool.example'' 1 15
       = ([ConsoleHeader (scroll @ '' Listing refunds for wallet '' @ [squote] @ ''alice'' @ [squote]),
           Authenticate ''https://pool.example'' ''alice'' False,
           CreateRequest ''https://pool.example''
             \<lparr>path = LIST_REFUND_INVOICES (apiRoutes_refund env_no_invoices), http_method = None,
              json_data = None, params = Some (JObj [(''page'', JInt 1), (''limit'', JInt 15)]),
              token = JStr ''token-alice''\<rparr>,
           ConsoleWarning ''No refund invoices found.''],
          Inr ())"
    by blast
  ultimately show ?thesis
    using run by blast
qed

section \<open>Details of an invoice without \<^verbatim>\<open>data\<close>\<close>

lemma upper_unknown: "map upper_char ''unknown'' = ''UNKNOWN''"
  by (simp add: upper_char_def char_of_def bit_0)

lemma str_zero: "py_str (JInt 0) = ''0''"
  by (simp add: py_str_def str_int_def digit_char_def char_of_def bit_0)

lemma str_not_available: "py_str (JStr ''N/A'') = ''N/A''"
  by (simp add: py_str_def)

lemma labels:
  "ljust 20 ''Status:'' = ''Status:             ''"
  "ljust 20 ''Amount:'' = ''Amount:             ''"
  "ljust 20 ''Created:'' = ''Created:            ''"
  "ljust 20 ''Updated:'' = ''Updated:            ''"
  by (simp_all add: ljust_def eval_nat_numeral)

text \<open>
  C10. When the backend answers the request for details with an envelope that has no
  \<^verbatim>\<open>data\<close>, \<^verbatim>\<open>get_refund_details\<close> returns the empty dict without raising, and the
  \<^verbatim>\<open>get\<close> command then prints every line from its fallback: the status
  \<^verbatim>\<open>unknown\<close>, in upper case as every status is, the amount 0 and \<^verbatim>\<open>N/A\<close> for both
  timestamps.
\<close>

theorem getInvoiceDetails_without_data:
  assumes "create_request env backend_url
             \<lparr>path = GET_REFUND_DETAILS (apiRoutes_refund env) @ ''/'' @ refund_id, http_method = None,
              json_data = None, params = None, token = tok\<rparr>
           = Inr (JObj envelope)"
    and "map_of envelope ''data'' = None"
  shows "get_refund_details env backend_url tok refund_id
           = ([CreateRequest backend_url
                 \<lparr>path = GET_REFUND_DETAILS (apiRoutes_refund env) @ ''/'' @ refund_id,
                  http_method = None, json_data = None, params = None, token = tok\<rparr>],
              Inr (JObj []))
       \<and> (authenticate_with_wallet env backend_url wallet_name False = Inr (tok, extra)
            \<and> py_truthy tok
          \<longrightarrow> get env refund_id wallet_name backend_url
                = ([ConsoleHeader (magnifier @ '' Fetching refund details: '' @ refund_id),
                    Authenticate backend_url wallet_name False,
                    CreateRequest backend_url
                      \<lparr>path = GET_REFUND_DETAILS (apiRoutes_refund env) @ ''/'' @ refund_id,
                       http_method = None, json_data = None, params = None, token = tok\<rparr>,
                    ConsolePrintTable (''Refund '' @ refund_id)
                      [''Status:              UNKNOWN'',
                       ''Amount:              0 TAO'',
                       ''Created:             N/A'',
                       ''Updated:             N/A'']],
                   Inr ()))"
proof (intro conjI impI)
  from assms show details: "get_refund_details env backend_url tok refund_id
           = ([CreateRequest backend_url
                 \<lparr>path = GET_REFUND_DETAILS (apiRoutes_refund env) @ ''/'' @ refund_id,
                  http_method = None, json_data = None, params = None, token = tok\<rparr>],
              Inr (JObj []))"
    by (simp add: get_refund_details_def get_refund_details_try_def call_defs py_get_def)
  assume "authenticate_with_wallet env backend_url wallet_name False = Inr (tok, extra) \<and> py_truthy tok"
  then show "get env refund_id wallet_name backend_url
                = ([ConsoleHeader (magnifier @ '' Fetching refund details: '' @ refund_id),
                    Authenticate backend_url wallet_name False,
                    CreateRequest backend_url
                      \<lparr>path = GET_REFUND_DETAILS (apiRoutes_refund env) @ ''/'' @ refund_id,
                       http_method = None, json_data = None, params = None, token = tok\<rparr>,
                    ConsolePrintTable (''Refund '' @ refund_id)
                      [''Status:              UNKNOWN'',
                       ''Amount:              0 TAO'',
                       ''Created:             N/A'',
                       ''Updated:             N/A'']],
                   Inr ())"
    by (simp add: get_def get_try_def call_authenticate_with_wallet_def details py_get_def
        py_upper_def upper_unknown [simplified] str_zero str_not_available labels)
qed

theorem getInvoiceDetails_without_data_witness:
  "create_request demo_env ''https://pool.example''
     \<lparr>path = GET_REFUND_DETAILS (apiRoutes_refund demo_env) @ ''/'' @ ''inv-1'', http_method = None,
      json_data = None, params = None, token = JStr ''token-alice''\<rparr>
     = Inr (JObj [(''message'', JStr ''ok'')])
   \<and> map_of [(''message'', JStr ''ok'')] ''data'' = None
   \<and> authenticate_with_wallet demo_env ''https://pool.example'' ''alice'' False
       = Inr (JStr ''token-alice'', JNull)
   \<and> py_truthy (JStr ''token-alice'')
   \<and> get_refund_details demo_env ''https://pool.example'' (JStr ''token-alice'') ''inv-1''
       = ([CreateRequest ''https://pool.example''
             \<lparr>path = GET_REFUND_DETAILS (apiRoutes_refund demo_env) @ ''/'' @ ''inv-1'',
              http_method = None, json_data = None, params = None, token = JStr ''token-alice''\<rparr>],
          Inr (JObj []))
   \<and> get demo_env ''inv-1'' ''alice'' ''https://pool.example''
       = ([ConsoleHeader (magnifier @ '' Fetching refund details: '' @ ''inv-1''),
           Authenticate ''https://pool.example'' ''alice'' False,
           CreateRequest ''https://pool.example''
             \<lparr>path = GET_REFUND_DETAILS (apiRoutes_refund demo_env) @ ''/'' @ ''inv-1'',
              http_method = None, json_data = None, params = None, token = JStr ''token-alice''\<rparr>,
           ConsolePrintTable (''Refund '' @ ''inv-1'')
             [''Status:              UNKNOWN'',
              ''Amount:              0 TAO'',
              ''Created:             N/A'',
              ''Updated:             N/A'']],
          Inr ())"
proof -
  have answer: "create_request demo_env ''https://pool.example''
      \<lparr>path = GET_REFUND_DETAILS (apiRoutes_refund demo_env) @ ''/'' @ ''inv-1'', http_method = None,
       json_data = None, params = None, token = JStr ''token-alice''\<rparr>
      = Inr (JObj [(''message'', JStr ''ok'')])"
    by (simp add: demo_defs)
  have no_data: "map_of [(''message'', JStr ''ok'')] ''data'' = None"
    by simp
  have auth: "authenticate_with_wallet demo_env ''https://pool.example'' ''alice'' False
      = Inr (JStr ''token-alice'', JNull) \<and> py_truthy (JStr ''token-alice'')"
    by (simp add: demo_defs py_truthy_def)
  from getInvoiceDetails_without_data [OF answer no_data, of "''alice''" JNull] auth answer no_data
  show ?thesis
    by blast
qed

section \<open>Nothing to refund\<close>

text \<open>
  C3. The claim is that a run of \<^verbatim>\<open>start\<close> in which \<^verbatim>\<open>create_refund_invoice\<close> returns
  nothing ends with a warning and prints no error. The command has the branch for it
  (\<^verbatim>\<open>No refund invoice returned\<close>), but calls \<^verbatim>\<open>refund_response.get\<close> before it tests
  \<^verbatim>\<open>refund_response\<close>: on \<^verbatim>\<open>None\<close> that raises \<^verbatim>\<open>AttributeError\<close>, which the last
  \<^verbatim>\<open>except\<close> clause prints as an unexpected error. Both runs below end with that
  error: the one with no expired key, and the one whose only key is too recent, after
  the warning of \<^verbatim>\<open>create_refund_invoice\<close> itself.
\<close>

theorem start_nothing_to_refund_prints_error:
  "start env_no_keys ''alice'' ''https://pool.example''
     = ([ConsoleHeader (money_wings @ '' Creating refund invoice for developer key''),
         Authenticate ''https://pool.example'' ''alice'' False,
         ListDeveloperKeys ''https://pool.example'' (JStr ''token-alice'') 1 100 ''expired'',
         ConsoleError (''Unexpected error: '' @ str_exn (no_attribute JNull ''get''))],
        Inr ())
   \<and> start env_recent_only ''alice'' ''https://pool.example''
     = ([ConsoleHeader (money_wings @ '' Creating refund invoice for developer key''),
         Authenticate ''https://pool.example'' ''alice'' False,
         ListDeveloperKeys ''https://pool.example'' (JStr ''token-alice'') 1 100 ''expired'',
         ConsoleWarning ''No expired keys older than 1 month found.'',
         ConsoleError (''Unexpected error: '' @ str_exn (no_attribute JNull ''get''))],
        Inr ())"
proof
  have "create_refund_invoice env_no_keys ''https://pool.example'' (JStr ''token-alice'')
      = ([ListDeveloperKeys ''https://pool.example'' (JStr ''token-alice'') 1 100 ''expired''], Inr JNull)"
    by (simp add: create_refund_invoice_def create_refund_invoice_try_def call_defs demo_defs
        py_getitem_def py_len_def)
  then show "start env_no_keys ''alice'' ''https://pool.example''
     = ([ConsoleHeader (money_wings @ '' Creating refund invoice for developer key''),
         Authenticate ''https://pool.example'' ''alice'' False,
         ListDeveloperKeys ''https://pool.example'' (JStr ''token-alice'') 1 100 ''expired'',
         ConsoleError (''Unexpected error: '' @ str_exn (no_attribute JNull ''get''))],
        Inr ())"
    by (simp add: start_def start_try_def call_authenticate_with_wallet_def demo_defs py_truthy_def
        py_get_def command_except_def no_attribute_def)
next
  have "eligible_keys env_recent_only [key_recent] = Inr (filter (refund_eligible_spec env_recent_only) [key_recent])"
    by (rule eligible_keys_total) (simp add: demo_key_records)
  moreover have "\<not> refund_eligible_spec env_recent_only key_recent"
    by (simp add: refund_eligible_spec_def demo_defs key_recent_def py_get_def str_replace_def
        parse_key_recent older_than_30_days_spec_def timedelta_days_def)
  ultimately have "eligible_keys env_recent_only [key_recent] = Inr []"
    by simp
  then have "create_refund_invoice env_recent_only ''https://pool.example'' (JStr ''token-alice'')
      = ([ListDeveloperKeys ''https://pool.example'' (JStr ''token-alice'') 1 100 ''expired'',
          ConsoleWarning ''No expired keys older than 1 month found.''], Inr JNull)"
    by (simp add: create_refund_invoice_def create_refund_invoice_try_def call_defs demo_defs
        py_getitem_def py_len_def py_iter_def del: eligible_keys.simps)
  then show "start env_recent_only ''alice'' ''https://pool.example''
     = ([ConsoleHeader (money_wings @ '' Creating refund invoice for developer key''),
         Authenticate ''https://pool.example'' ''alice'' False,
         ListDeveloperKeys ''https://pool.example'' (JStr ''token-alice'') 1 100 ''expired'',
         ConsoleWarning ''No expired keys older than 1 month found.'',
         ConsoleError (''Unexpected error: '' @ str_exn (no_attribute JNull ''get''))],
        Inr ())"
    by (simp add: start_def start_try_def call_authenticate_with_wallet_def demo_defs py_truthy_def
        py_get_def command_except_def no_attribute_def)
qed

section \<open>Kinds of failure\<close>

text \<open>
  What the \<^verbatim>\<open>except\<close> clauses of the three operations make of an exception raised in
  their \<^verbatim>\<open>try\<close> block: \<^verbatim>\<open>create_refund_invoice\<close> and \<^verbatim>\<open>list_refund_invoices\<close> turn a
  \<^verbatim>\<open>RequestException\<close> into an \<^verbatim>\<open>APIError\<close> and anything else into a
  \<^verbatim>\<open>RefundError\<close>; \<^verbatim>\<open>get_refund_details\<close> turns everything into a \<^verbatim>\<open>RefundError\<close>.
\<close>

lemma create_refund_invoice_raises:
  assumes "create_refund_invoice_try env backend_url tok = (t, Inl e)"
  shows "create_refund_invoice env backend_url tok
           = (t, Inl (if exn_class_of e = RequestException
                      then Exn APIError (''Request failed: '' @ str_exn e)
                      else Exn RefundError (''Error creating refund invoice: '' @ str_exn e
                             @ ''. Check if you have already created invoice for this key.'')))"
  using assms by (simp add: create_refund_invoice_def)

lemma list_refund_invoices_raises:
  assumes "list_refund_invoices_try env backend_url tok page limit = (t, Inl e)"
  shows "list_refund_invoices env backend_url tok page limit
           = (t, Inl (if exn_class_of e = RequestException
                      then Exn APIError (''API request failed: '' @ str_exn e)
                      else Exn RefundError (''Error listing refunds: '' @ str_exn e)))"
  using assms by (simp add: list_refund_invoices_def)

lemma get_refund_details_raises:
  assumes "get_refund_details_try env backend_url tok refund_id = (t, Inl e)"
  shows "get_refund_details env backend_url tok refund_id
           = (t, Inl (Exn RefundError (''Error fetching refund details: '' @ str_exn e)))"
  using assms by (simp add: get_refund_details_def)

text \<open>
  C4. The claim is that each of the three operations reports a failure of the transport
  as an \<^verbatim>\<open>APIError\<close> and keeps \<^verbatim>\<open>RefundError\<close> for the failures of the domain. With
  the backend out of reach, \<^verbatim>\<open>list_refund_invoices\<close> does raise an \<^verbatim>\<open>APIError\<close>, but
  \<^verbatim>\<open>get_refund_details\<close>, whose only clause is \<^verbatim>\<open>except Exception\<close>, raises a
  \<^verbatim>\<open>RefundError\<close> for the same \<^verbatim>\<open>requests.ConnectionError\<close>.
\<close>

theorem get_refund_details_transport_failure:
  "get_refund_details env_offline ''https://pool.example'' (JStr ''token-alice'') ''inv-1''
     = ([CreateRequest ''https://pool.example''
           \<lparr>path = ''/refund/details/inv-1'', http_method = None, json_data = None, params = None,
            token = JStr ''token-alice''\<rparr>],
        Inl (Exn RefundError ''Error fetching refund details: Connection refused''))
   \<and> list_refund_invoices env_offline ''https://pool.example'' (JStr ''token-alice'') 1 15
     = ([CreateRequest ''https://pool.example''
           \<lparr>path = ''/refund/list'', http_method = None, json_data = None,
            params = Some (JObj [(''page'', JInt 1), (''limit'', JInt 15)]),
            token = JStr ''token-alice''\<rparr>],
        Inl (Exn APIError ''API request failed: Connection refused''))"
  by (simp add: get_refund_details_def get_refund_details_try_def list_refund_invoices_def
      list_refund_invoices_try_def call_defs demo_defs)

end
